theory Spec2Isabelle
  imports Main "HOL-Library.Word" "HOL-Library.AList"
begin

unbundle bit_operations_syntax

section \<open>Errors and outcomes\<close>

text \<open>
  The source is \<^verbatim>\<open>internal/application/command.go\<close>. A Go \<^verbatim>\<open>error\<close> is a value
  here; a nil error is \<open>None\<close>. The kinds are the \<^verbatim>\<open>edgexErr.Kind...\<close> constants the
  file uses.
\<close>

datatype ErrKind =
    KindServiceLocked
  | KindEntityDoesNotExist
  | KindNotAllowed
  | KindContractInvalid
  | KindServerError

datatype go_error =
    ErrSyntax
  | ErrRange
  | NumError go_error
  | CorruptInputError
  | EOF
  | ErrUnexpectedEOF
  | Errorf string
  | ExternalError string
  | CommonEdgeX ErrKind string "go_error option"

text \<open>\<^verbatim>\<open>edgexErr.NewCommonEdgeX(kind, message, wrappedError)\<close>.\<close>

definition NewCommonEdgeX :: "ErrKind \<Rightarrow> string \<Rightarrow> go_error option \<Rightarrow> go_error" where
  "NewCommonEdgeX k msg wrapped = CommonEdgeX k msg wrapped"

text \<open>The kind of a returned error (\<open>None\<close> for nil and for an error that is no EdgeX error).\<close>

fun errKind :: "go_error option \<Rightarrow> ErrKind option" where
  "errKind (Some (CommonEdgeX k msg w)) = Some k"
| "errKind e = None"

text \<open>
  A Go call either returns or panics (here: a nil pointer dereference). A panic is not
  an error value: no caller of this file recovers it.
\<close>

datatype 'a outcome = Return 'a | Panic

section \<open>The standard library functions the file calls\<close>

text \<open>
  These are functions of Go's standard library, written out from their documented
  behaviour for the arguments the file passes (base 10, the standard base64 encoding,
  big-endian order). Parsing of decimal floating-point numerals and of JSON documents is
  left as a parameter of the model (see \<open>stdlib\<close> below).
\<close>

subsection \<open>fmt: decimal integers for \<^verbatim>\<open>%d\<close>\<close>

definition digit_char :: "nat \<Rightarrow> char" where
  "digit_char d = ''0123456789'' ! d"

function show_nat :: "nat \<Rightarrow> string" where
  "show_nat n = (if n < 10 then [digit_char n] else show_nat (n div 10) @ [digit_char (n mod 10)])"
  by pat_completeness auto
termination
  by (relation "measure id") auto

declare show_nat.simps [simp del]

definition show_int :: "int \<Rightarrow> string" where
  "show_int i = (if i < 0 then CHR ''-'' # show_nat (nat (- i)) else show_nat (nat i))"

subsection \<open>strconv: ParseBool, ParseUint, ParseInt at base 10\<close>

definition ParseBool :: "string \<Rightarrow> go_error + bool" where
  "ParseBool s =
     (if s \<in> set [''1'', ''t'', ''T'', ''TRUE'', ''true'', ''True''] then Inr True
      else if s \<in> set [''0'', ''f'', ''F'', ''FALSE'', ''false'', ''False''] then Inr False
      else Inl (NumError ErrSyntax))"

definition digit_val :: "char \<Rightarrow> nat option" where
  "digit_val c =
     (let n = (of_char c :: nat) in if 48 \<le> n \<and> n \<le> 57 then Some (n - 48) else None)"

text \<open>
  The digit loop of \<^verbatim>\<open>ParseUint\<close>: characters are read left to right; the first one
  that is no digit is a syntax error, the first digit that takes the value above
  \<open>maxVal\<close> a range error.
\<close>

fun parse_digits :: "nat \<Rightarrow> nat \<Rightarrow> string \<Rightarrow> go_error + nat" where
  "parse_digits maxVal n [] = Inr n"
| "parse_digits maxVal n (c # cs) =
     (case digit_val c of
        None \<Rightarrow> Inl ErrSyntax
      | Some d \<Rightarrow>
          if n * 10 + d > maxVal then Inl ErrRange
          else parse_digits maxVal (n * 10 + d) cs)"

definition ParseUint :: "string \<Rightarrow> nat \<Rightarrow> go_error + nat" where
  "ParseUint s bitSize =
     (if s = [] then Inl (NumError ErrSyntax)
      else case parse_digits (2 ^ bitSize - 1) 0 s of
             Inl e \<Rightarrow> Inl (NumError e)
           | Inr n \<Rightarrow> Inr n)"

definition ParseInt :: "string \<Rightarrow> nat \<Rightarrow> go_error + int" where
  "ParseInt s bitSize =
     (if s = [] then Inl (NumError ErrSyntax)
      else
        let neg = (hd s = CHR ''-'');
            s1 = (if hd s = CHR ''+'' \<or> hd s = CHR ''-'' then tl s else s);
            cutoff = (2 :: nat) ^ (bitSize - 1)
        in case ParseUint s1 bitSize of
             Inl (NumError ErrRange) \<Rightarrow> Inl (NumError ErrRange)
           | Inl e \<Rightarrow> Inl e
           | Inr un \<Rightarrow>
               if \<not> neg \<and> un \<ge> cutoff then Inl (NumError ErrRange)
               else if neg \<and> un > cutoff then Inl (NumError ErrRange)
               else Inr (if neg then - int un else int un))"

subsection \<open>strings: Trim and Split\<close>

definition Trim :: "string \<Rightarrow> string \<Rightarrow> string" where
  "Trim s cutset =
     rev (dropWhile (\<lambda>c. c \<in> set cutset) (rev (dropWhile (\<lambda>c. c \<in> set cutset) s)))"

text \<open>\<^verbatim>\<open>strings.Split(s, sep)\<close> for a separator of one character.\<close>

fun Split :: "string \<Rightarrow> char \<Rightarrow> string list" where
  "Split [] sep = [[]]"
| "Split (c # cs) sep =
     (if c = sep then [] # Split cs sep
      else case Split cs sep of
             p # ps \<Rightarrow> (c # p) # ps
           | [] \<Rightarrow> [[c]])"

subsection \<open>encoding/base64: StdEncoding.DecodeString\<close>

definition encodeStd :: string where
  "encodeStd = ''ABCDEFGHIJKLMNOPQRSTUVWXYZabcdefghijklmnopqrstuvwxyz0123456789+/''"

fun index_of :: "'a \<Rightarrow> 'a list \<Rightarrow> nat option" where
  "index_of x [] = None"
| "index_of x (y # ys) =
     (if x = y then Some 0 else map_option Suc (index_of x ys))"

definition decodeMap :: "char \<Rightarrow> nat option" where
  "decodeMap c = index_of c encodeStd"

text \<open>
  One quantum is four characters giving three bytes; only the last quantum may end in
  one or two padding characters. Line feeds and carriage returns are skipped wherever
  they stand, so the quanta are read from the text without them.
\<close>

fun decodeQuanta :: "string \<Rightarrow> go_error + 8 word list" where
  "decodeQuanta (a # b # c # d # rest) =
     (case (decodeMap a, decodeMap b) of
        (Some x, Some y) \<Rightarrow>
          if rest = [] \<and> c = CHR ''='' \<and> d = CHR ''='' then
            Inr [of_nat ((x * 64 + y) div 16)]
          else
            (case decodeMap c of
               None \<Rightarrow> Inl CorruptInputError
             | Some z \<Rightarrow>
                 if rest = [] \<and> d = CHR ''='' then
                   Inr [of_nat ((x * 64 + y) div 16), of_nat ((y * 64 + z) div 4)]
                 else
                   (case decodeMap d of
                      None \<Rightarrow> Inl CorruptInputError
                    | Some w \<Rightarrow>
                        (case decodeQuanta rest of
                           Inl e \<Rightarrow> Inl e
                         | Inr bs \<Rightarrow>
                             Inr (of_nat ((x * 64 + y) div 16) #
                                  of_nat ((y * 64 + z) div 4) #
                                  of_nat (z * 64 + w) # bs))))
      | _ \<Rightarrow> Inl CorruptInputError)"
| "decodeQuanta [] = Inr []"
| "decodeQuanta s = Inl CorruptInputError"

definition DecodeString :: "string \<Rightarrow> go_error + 8 word list" where
  "DecodeString s = decodeQuanta (filter (\<lambda>c. c \<noteq> CHR 0x0A \<and> c \<noteq> CHR 0x0D) s)"

subsection \<open>Floating point: bit patterns, special values, big-endian reads\<close>

text \<open>
  A \<^verbatim>\<open>float32\<close> or \<^verbatim>\<open>float64\<close> is its IEEE 754 bit pattern. \<^verbatim>\<open>math.IsNaN\<close> holds of
  the patterns with all exponent bits set and a non-zero fraction; widening a
  \<^verbatim>\<open>float32\<close> to \<^verbatim>\<open>float64\<close> keeps a NaN a NaN, so
  \<^verbatim>\<open>math.IsNaN(float64(val))\<close> is the test on the 32-bit pattern.
\<close>

type_synonym float32 = "32 word"
type_synonym float64 = "64 word"

definition IsNaN32 :: "float32 \<Rightarrow> bool" where
  "IsNaN32 f = (f AND 0x7F800000 = 0x7F800000 \<and> f AND 0x007FFFFF \<noteq> 0)"

definition IsNaN64 :: "float64 \<Rightarrow> bool" where
  "IsNaN64 f = (f AND 0x7FF0000000000000 = 0x7FF0000000000000 \<and> f AND 0x000FFFFFFFFFFFFF \<noteq> 0)"

definition NaN32 :: float32 where
  "NaN32 = 0x7FC00000"

definition NaN64 :: float64 where
  "NaN64 = 0x7FF8000000000001"

definition Inf32 :: "bool \<Rightarrow> float32" where
  "Inf32 negative = (if negative then 0xFF800000 else 0x7F800000)"

definition Inf64 :: "bool \<Rightarrow> float64" where
  "Inf64 negative = (if negative then 0xFFF0000000000000 else 0x7FF0000000000000)"

text \<open>
  The special values \<^verbatim>\<open>strconv.ParseFloat\<close> recognises before it reads a numeral:
  \<^verbatim>\<open>nan\<close> without a sign, and \<^verbatim>\<open>inf\<close> or \<^verbatim>\<open>infinity\<close> with an optional sign, in
  any mix of upper and lower case.
\<close>

datatype special_float = SpecialNaN | SpecialInf bool

definition lower :: "char \<Rightarrow> char" where
  "lower c =
     (case map_of (zip ''ABCDEFGHIJKLMNOPQRSTUVWXYZ'' ''abcdefghijklmnopqrstuvwxyz'') c of
        Some l \<Rightarrow> l
      | None \<Rightarrow> c)"

definition special :: "string \<Rightarrow> special_float option" where
  "special s =
     (let l = map lower s in
      if l = ''nan'' then Some SpecialNaN
      else if l = ''inf'' \<or> l = ''infinity'' \<or> l = ''+inf'' \<or> l = ''+infinity'' then
        Some (SpecialInf False)
      else if l = ''-inf'' \<or> l = ''-infinity'' then Some (SpecialInf True)
      else None)"

text \<open>
  \<^verbatim>\<open>binary.Read(reader, binary.BigEndian, &res)\<close> for a float of \<open>n\<close> bytes: it needs
  \<open>n\<close> bytes (\<^verbatim>\<open>io.EOF\<close> when there is none, \<^verbatim>\<open>io.ErrUnexpectedEOF\<close> when there are
  fewer), reads the first \<open>n\<close> and leaves the rest of the reader unread.
\<close>

definition BigEndian :: "8 word list \<Rightarrow> 'a::len word" where
  "BigEndian bs = foldl (\<lambda>acc b. push_bit 8 acc OR ucast b) 0 bs"

definition ReadFull :: "8 word list \<Rightarrow> nat \<Rightarrow> go_error + 8 word list" where
  "ReadFull bs n =
     (if n \<le> length bs then Inr (take n bs)
      else if bs = [] then Inl EOF
      else Inl ErrUnexpectedEOF)"

section \<open>The data model\<close>

text \<open>
  Constants of \<^verbatim>\<open>go-mod-core-contracts\<close> (\<^verbatim>\<open>v2\<close>, \<^verbatim>\<open>models\<close>) and of
  \<^verbatim>\<open>internal/common\<close> that the file compares strings with. Administrative and operating
  states, permissions and value types are strings in Go, and stay strings here.
\<close>

definition Locked :: string where "Locked = ''LOCKED''"
definition Down :: string where "Down = ''DOWN''"
definition Name :: string where "Name = ''name''"
definition Command :: string where "Command = ''command''"
definition ReadWrite_R :: string where "ReadWrite_R = ''R''"
definition ReadWrite_W :: string where "ReadWrite_W = ''W''"
definition URLRawQuery :: string where "URLRawQuery = ''urlRawQuery''"

definition ValueTypeBool :: string where "ValueTypeBool = ''Bool''"
definition ValueTypeString :: string where "ValueTypeString = ''String''"
definition ValueTypeUint8 :: string where "ValueTypeUint8 = ''Uint8''"
definition ValueTypeUint16 :: string where "ValueTypeUint16 = ''Uint16''"
definition ValueTypeUint32 :: string where "ValueTypeUint32 = ''Uint32''"
definition ValueTypeUint64 :: string where "ValueTypeUint64 = ''Uint64''"
definition ValueTypeInt8 :: string where "ValueTypeInt8 = ''Int8''"
definition ValueTypeInt16 :: string where "ValueTypeInt16 = ''Int16''"
definition ValueTypeInt32 :: string where "ValueTypeInt32 = ''Int32''"
definition ValueTypeInt64 :: string where "ValueTypeInt64 = ''Int64''"
definition ValueTypeFloat32 :: string where "ValueTypeFloat32 = ''Float32''"
definition ValueTypeFloat64 :: string where "ValueTypeFloat64 = ''Float64''"
definition ValueTypeBoolArray :: string where "ValueTypeBoolArray = ''BoolArray''"
definition ValueTypeUint8Array :: string where "ValueTypeUint8Array = ''Uint8Array''"
definition ValueTypeUint16Array :: string where "ValueTypeUint16Array = ''Uint16Array''"
definition ValueTypeUint32Array :: string where "ValueTypeUint32Array = ''Uint32Array''"
definition ValueTypeUint64Array :: string where "ValueTypeUint64Array = ''Uint64Array''"
definition ValueTypeInt8Array :: string where "ValueTypeInt8Array = ''Int8Array''"
definition ValueTypeInt16Array :: string where "ValueTypeInt16Array = ''Int16Array''"
definition ValueTypeInt32Array :: string where "ValueTypeInt32Array = ''Int32Array''"
definition ValueTypeInt64Array :: string where "ValueTypeInt64Array = ''Int64Array''"
definition ValueTypeFloat32Array :: string where "ValueTypeFloat32Array = ''Float32Array''"
definition ValueTypeFloat64Array :: string where "ValueTypeFloat64Array = ''Float64Array''"

text \<open>
  The Go value a Command Value holds, in the representation of its kind. Signed integers
  of \<open>n\<close> bits are \<open>n word\<close> in two's complement (\<open>sint\<close> reads them).
\<close>

datatype go_value =
    VString string
  | VBool bool
  | VBoolArray "bool list"
  | VUint8 "8 word"
  | VUint8Array "8 word list"
  | VUint16 "16 word"
  | VUint16Array "16 word list"
  | VUint32 "32 word"
  | VUint32Array "32 word list"
  | VUint64 "64 word"
  | VUint64Array "64 word list"
  | VInt8 "8 word"
  | VInt8Array "8 word list"
  | VInt16 "16 word"
  | VInt16Array "16 word list"
  | VInt32 "32 word"
  | VInt32Array "32 word list"
  | VInt64 "64 word"
  | VInt64Array "64 word list"
  | VFloat32 float32
  | VFloat32Array "float32 list"
  | VFloat64 float64
  | VFloat64Array "float64 list"

text \<open>
  A Go map is a reference: \<open>None\<close> is the nil map, \<open>Some a\<close> the map stored at address
  \<open>a\<close> of the heap (\<open>maps\<close> of the state below). Copying a struct that has a map field
  copies the reference, not the entries.
\<close>

type_synonym map_ref = "nat option"
type_synonym entries = "(string \<times> string) list"

record ResourceProperties =
  ValueType :: string
  ReadWrite :: string
  DefaultValue :: string
  OtherProperties :: entries

record DeviceResource =
  dr_Name :: string
  Properties :: ResourceProperties
  Attributes :: map_ref

text \<open>
  \<open>Mappings\<close> is a Go map ranged over at lines 348-354. Go leaves the order of a
  \<^verbatim>\<open>range\<close> over a map unspecified: the list holds the entries in the order in which
  the run at hand visits them, and the theorems hold for every order.
\<close>

record ResourceOperation =
  ro_DeviceResource :: string
  ro_DefaultValue :: string
  Mappings :: entries

record DeviceCommand =
  dc_Name :: string
  dc_ReadWrite :: string
  ResourceOperations :: "ResourceOperation list"

record Device =
  dev_Name :: string
  ProfileName :: string
  AdminState :: string
  OperatingState :: string
  Protocols :: "(string \<times> entries) list"

record DeviceService =
  ds_AdminState :: string

record DeviceInfo =
  MaxCmdOps :: int
  DataTransform :: bool
  UpdateLastConnected :: bool

record CommandRequest =
  DeviceResourceName :: string
  req_Attributes :: map_ref
  req_Type :: string

record CommandValue =
  cv_DeviceResourceName :: string
  cv_Type :: string
  cv_Value :: go_value

datatype Event = Event string string "CommandValue list"

section \<open>What the file takes from outside\<close>

text \<open>
  The collaborators the file reaches through the DI container, the cache and the
  transformer package, and the two library parsers that are not written out above.
  Each is a parameter: the theorems hold for every behaviour of them.
  \<^item> \<open>atof32 s\<close> is \<^verbatim>\<open>float32(val)\<close> for \<^verbatim>\<open>val, err := strconv.ParseFloat(s, 32)\<close> and
    \<open>atof64 s\<close> is \<^verbatim>\<open>strconv.ParseFloat(s, 64)\<close>, on a text that is no special value
    (with bit size 32 the parser returns a value that converts to \<^verbatim>\<open>float32\<close>
    unchanged);
  \<^item> \<open>json_Unmarshal_...\<close> is \<^verbatim>\<open>json.Unmarshal\<close> into a variable of the type named;
  \<^item> the driver's answer may depend on the attribute maps its requests refer to, so it
    is given the heap's maps; it does not change them;
  \<^item> \<open>TransformWriteParameter\<close> changes the Command Value it is given in place: it
    returns the changed value with the error.
\<close>

record env =
  atof32 :: "string \<Rightarrow> go_error + float32"
  atof64 :: "string \<Rightarrow> go_error + float64"
  json_Unmarshal_map :: "string \<Rightarrow> go_error + entries"
  json_Unmarshal_bools :: "string \<Rightarrow> go_error + bool list"
  json_Unmarshal_ints :: "nat \<Rightarrow> string \<Rightarrow> go_error + int list"
  json_Unmarshal_float32s :: "string \<Rightarrow> go_error + float32 list"
  json_Unmarshal_float64s :: "string \<Rightarrow> go_error + float64 list"
  DeviceServiceFrom :: DeviceService
  ConfigurationFrom :: DeviceInfo
  Devices_ForName :: "string \<Rightarrow> Device option"
  Profiles_DeviceCommand :: "string \<Rightarrow> string \<Rightarrow> DeviceCommand option"
  Profiles_DeviceResource :: "string \<Rightarrow> string \<Rightarrow> DeviceResource option"
  HandleReadCommands ::
    "string \<Rightarrow> (string \<times> entries) list \<Rightarrow> CommandRequest list \<Rightarrow> (nat \<Rightarrow> entries)
       \<Rightarrow> CommandValue list \<times> go_error option"
  HandleWriteCommands ::
    "string \<Rightarrow> (string \<times> entries) list \<Rightarrow> CommandRequest list \<Rightarrow> CommandValue list
       \<Rightarrow> (nat \<Rightarrow> entries) \<Rightarrow> go_error option"
  CommandValuesToEventDTO ::
    "CommandValue list \<Rightarrow> string \<Rightarrow> string \<Rightarrow> Event option \<times> go_error option"
  TransformWriteParameter ::
    "CommandValue \<Rightarrow> ResourceProperties \<Rightarrow> CommandValue \<times> go_error option"

text \<open>
  What an invocation can change: the attribute maps on the heap, the calls the driver has
  received (a recording test double) and the goroutines started with \<^verbatim>\<open>go\<close>.
\<close>

datatype driver_call =
    ReadCall string "CommandRequest list"
  | WriteCall string "CommandRequest list" "CommandValue list"

datatype goroutine =
    GoUpdateLastConnected string
  | GoSendEvent Event string

record state =
  maps :: "nat \<Rightarrow> entries"
  next_map :: nat
  driver_calls :: "driver_call list"
  goroutines :: "goroutine list"

section \<open>The Value Codec: createCommandValueFromDeviceResource (lines 418-647)\<close>

definition ParseFloat32 :: "env \<Rightarrow> string \<Rightarrow> go_error + float32" where
  "ParseFloat32 E s =
     (case special s of
        Some SpecialNaN \<Rightarrow> Inr NaN32
      | Some (SpecialInf negative) \<Rightarrow> Inr (Inf32 negative)
      | None \<Rightarrow> atof32 E s)"

definition ParseFloat64 :: "env \<Rightarrow> string \<Rightarrow> go_error + float64" where
  "ParseFloat64 E s =
     (case special s of
        Some SpecialNaN \<Rightarrow> Inr NaN64
      | Some (SpecialInf negative) \<Rightarrow> Inr (Inf64 negative)
      | None \<Rightarrow> atof64 E s)"

text \<open>Lines 649-653 and 655-659.\<close>

definition float32FromBytes :: "8 word list \<Rightarrow> float32 \<times> go_error option" where
  "float32FromBytes numericValue =
     (case ReadFull numericValue 4 of
        Inl err \<Rightarrow> (0, Some err)
      | Inr bs \<Rightarrow> (BigEndian bs, None))"

definition float64FromBytes :: "8 word list \<Rightarrow> float64 \<times> go_error option" where
  "float64FromBytes numericValue =
     (case ReadFull numericValue 8 of
        Inl err \<Rightarrow> (0, Some err)
      | Inr bs \<Rightarrow> (BigEndian bs, None))"

text \<open>
  Modelled from the spec: \<^verbatim>\<open>dsModels.NewCommandValue\<close> of \<^verbatim>\<open>pkg/models\<close>, which is not
  among the sources. The spec (4.4): a successful decode returns a Command Value tagged
  with the resource name, the declared kind and the value in its representation for that
  kind. Every call below passes a value of the kind it names.
\<close>

definition NewCommandValue ::
  "string \<Rightarrow> string \<Rightarrow> go_value \<Rightarrow> CommandValue option \<times> go_error option" where
  "NewCommandValue deviceResourceName valueType v =
     (Some \<lparr>cv_DeviceResourceName = deviceResourceName, cv_Type = valueType, cv_Value = v\<rparr>,
      None)"

text \<open>
  The function declares \<^verbatim>\<open>var err edgexErr.EdgeX\<close> (line 419) and returns that variable
  at line 646. Every clause of the switch but the first and the default one declares an
  \<^verbatim>\<open>err\<close> of its own with \<^verbatim>\<open>:=\<close> (a clause is a block of its own in Go), so inside such
  a clause \<^verbatim>\<open>result, err = ...\<close> and \<^verbatim>\<open>err = ...\<close> assign the clause's variable. A
  clause that is left by \<^verbatim>\<open>break\<close> or by its end thus returns the \<open>result\<close> it assigned
  together with the outer \<open>err\<close>, which is still nil. \<open>leave_clause\<close> is that exit, given
  the clause's \<open>(result, err)\<close>.
\<close>

definition leave_clause ::
  "CommandValue option \<times> go_error option \<Rightarrow> CommandValue option \<times> go_error option" where
  "leave_clause r = (fst r, None)"

text \<open>The early exit of lines 428-429 and its copies in the other clauses.\<close>

definition return_convert_error ::
  "DeviceResource \<Rightarrow> string \<Rightarrow> go_error \<Rightarrow> CommandValue option \<times> go_error option" where
  "return_convert_error dr v err =
     (None,
      Some (NewCommonEdgeX KindServerError
        (''failed to convert set parameter '' @ v @ '' to ValueType '' @ ValueType (Properties dr))
        (Some err)))"

text \<open>The loop of lines 450-457 (and of the other unsigned array kinds).\<close>

fun parse_elements :: "nat \<Rightarrow> string list \<Rightarrow> nat list \<Rightarrow> go_error + nat list" where
  "parse_elements bitSize [] arr = Inr arr"
| "parse_elements bitSize (u # us) arr =
     (case ParseUint (Trim u '' '') bitSize of
        Inl err \<Rightarrow> Inl err
      | Inr n \<Rightarrow> parse_elements bitSize us (arr @ [n]))"

text \<open>
  The clauses of the two float kinds (lines 576-600 and 609-633), as the pair of the
  \<open>result\<close> they assign and the value of the clause's own \<open>err\<close> when they are left.
\<close>

definition clause_Float32 ::
  "env \<Rightarrow> DeviceResource \<Rightarrow> string \<Rightarrow> CommandValue option \<times> go_error option" where
  "clause_Float32 E dr v =
     (case ParseFloat32 E v of
        Inr val \<Rightarrow> NewCommandValue (dr_Name dr) ValueTypeFloat32 (VFloat32 val)
      | Inl err \<Rightarrow>
          (case err of
             NumError ErrRange \<Rightarrow>
               (None, Some (NewCommonEdgeX KindServerError ''NumError'' (Some err)))
           | _ \<Rightarrow>
               (case DecodeString v of
                  Inl err1 \<Rightarrow> (None, Some err1)
                | Inr decodedToBytes \<Rightarrow>
                    (case float32FromBytes decodedToBytes of
                       (val, Some err2) \<Rightarrow> (None, Some err2)
                     | (val, None) \<Rightarrow>
                         if IsNaN32 val then
                           (None,
                            Some (Errorf (''fail to parse '' @ v @
                              '' to float32, unexpected result NaN'')))
                         else NewCommandValue (dr_Name dr) ValueTypeFloat32 (VFloat32 val)))))"

definition clause_Float64 ::
  "env \<Rightarrow> DeviceResource \<Rightarrow> string \<Rightarrow> CommandValue option \<times> go_error option" where
  "clause_Float64 E dr v =
     (case ParseFloat64 E v of
        Inr val \<Rightarrow> NewCommandValue (dr_Name dr) ValueTypeFloat64 (VFloat64 val)
      | Inl err \<Rightarrow>
          (case err of
             NumError ErrRange \<Rightarrow>
               (None, Some (NewCommonEdgeX KindServerError ''NumError'' (Some err)))
           | _ \<Rightarrow>
               (case DecodeString v of
                  Inl err1 \<Rightarrow> (None, Some err1)
                | Inr decodedToBytes \<Rightarrow>
                    (case float64FromBytes decodedToBytes of
                       (val, Some err2) \<Rightarrow> (None, Some err2)
                     | (val, None) \<Rightarrow>
                         if IsNaN64 val then
                           (None,
                            Some (Errorf (''fail to parse '' @ v @
                              '' to float64, unexpected result NaN'')))
                         else NewCommandValue (dr_Name dr) ValueTypeFloat64 (VFloat64 val)))))"

definition createCommandValueFromDeviceResource ::
  "env \<Rightarrow> DeviceResource \<Rightarrow> string \<Rightarrow> CommandValue option \<times> go_error option" where
  "createCommandValueFromDeviceResource E dr v =
     (let t = ValueType (Properties dr) in
      if t = ValueTypeString then NewCommandValue (dr_Name dr) ValueTypeString (VString v)
      else if t = ValueTypeBool then
        (case ParseBool v of
           Inl err \<Rightarrow> return_convert_error dr v err
         | Inr b \<Rightarrow> leave_clause (NewCommandValue (dr_Name dr) ValueTypeBool (VBool b)))
      else if t = ValueTypeBoolArray then
        (case json_Unmarshal_bools E v of
           Inl err \<Rightarrow> return_convert_error dr v err
         | Inr arr \<Rightarrow>
             leave_clause (NewCommandValue (dr_Name dr) ValueTypeBoolArray (VBoolArray arr)))
      else if t = ValueTypeUint8 then
        (case ParseUint v 8 of
           Inl err \<Rightarrow> return_convert_error dr v err
         | Inr n \<Rightarrow> leave_clause (NewCommandValue (dr_Name dr) ValueTypeUint8 (VUint8 (of_nat n))))
      else if t = ValueTypeUint8Array then
        (case parse_elements 8 (Split (Trim v ''[]'') (CHR '','')) [] of
           Inl err \<Rightarrow> return_convert_error dr v err
         | Inr arr \<Rightarrow>
             leave_clause
               (NewCommandValue (dr_Name dr) ValueTypeUint8Array (VUint8Array (map of_nat arr))))
      else if t = ValueTypeUint16 then
        (case ParseUint v 16 of
           Inl err \<Rightarrow> return_convert_error dr v err
         | Inr n \<Rightarrow>
             leave_clause (NewCommandValue (dr_Name dr) ValueTypeUint16 (VUint16 (of_nat n))))
      else if t = ValueTypeUint16Array then
        (case parse_elements 16 (Split (Trim v ''[]'') (CHR '','')) [] of
           Inl err \<Rightarrow> return_convert_error dr v err
         | Inr arr \<Rightarrow>
             leave_clause
               (NewCommandValue (dr_Name dr) ValueTypeUint16Array (VUint16Array (map of_nat arr))))
      else if t = ValueTypeUint32 then
        (case ParseUint v 32 of
           Inl err \<Rightarrow> return_convert_error dr v err
         | Inr n \<Rightarrow>
             leave_clause (NewCommandValue (dr_Name dr) ValueTypeUint32 (VUint32 (of_nat n))))
      else if t = ValueTypeUint32Array then
        (case parse_elements 32 (Split (Trim v ''[]'') (CHR '','')) [] of
           Inl err \<Rightarrow> return_convert_error dr v err
         | Inr arr \<Rightarrow>
             leave_clause
               (NewCommandValue (dr_Name dr) ValueTypeUint32Array (VUint32Array (map of_nat arr))))
      else if t = ValueTypeUint64 then
        (case ParseUint v 64 of
           Inl err \<Rightarrow> return_convert_error dr v err
         | Inr n \<Rightarrow>
             leave_clause (NewCommandValue (dr_Name dr) ValueTypeUint64 (VUint64 (of_nat n))))
      else if t = ValueTypeUint64Array then
        (case parse_elements 64 (Split (Trim v ''[]'') (CHR '','')) [] of
           Inl err \<Rightarrow> return_convert_error dr v err
         | Inr arr \<Rightarrow>
             leave_clause
               (NewCommandValue (dr_Name dr) ValueTypeUint64Array (VUint64Array (map of_nat arr))))
      else if t = ValueTypeInt8 then
        (case ParseInt v 8 of
           Inl err \<Rightarrow> return_convert_error dr v err
         | Inr n \<Rightarrow> leave_clause (NewCommandValue (dr_Name dr) ValueTypeInt8 (VInt8 (of_int n))))
      else if t = ValueTypeInt8Array then
        (case json_Unmarshal_ints E 8 v of
           Inl err \<Rightarrow> return_convert_error dr v err
         | Inr arr \<Rightarrow>
             leave_clause
               (NewCommandValue (dr_Name dr) ValueTypeInt8Array (VInt8Array (map of_int arr))))
      else if t = ValueTypeInt16 then
        (case ParseInt v 16 of
           Inl err \<Rightarrow> return_convert_error dr v err
         | Inr n \<Rightarrow> leave_clause (NewCommandValue (dr_Name dr) ValueTypeInt16 (VInt16 (of_int n))))
      else if t = ValueTypeInt16Array then
        (case json_Unmarshal_ints E 16 v of
           Inl err \<Rightarrow> return_convert_error dr v err
         | Inr arr \<Rightarrow>
             leave_clause
               (NewCommandValue (dr_Name dr) ValueTypeInt16Array (VInt16Array (map of_int arr))))
      else if t = ValueTypeInt32 then
        (case ParseInt v 32 of
           Inl err \<Rightarrow> return_convert_error dr v err
         | Inr n \<Rightarrow> leave_clause (NewCommandValue (dr_Name dr) ValueTypeInt32 (VInt32 (of_int n))))
      else if t = ValueTypeInt32Array then
        (case json_Unmarshal_ints E 32 v of
           Inl err \<Rightarrow> return_convert_error dr v err
         | Inr arr \<Rightarrow>
             leave_clause
               (NewCommandValue (dr_Name dr) ValueTypeInt32Array (VInt32Array (map of_int arr))))
      else if t = ValueTypeInt64 then
        (case ParseInt v 64 of
           Inl err \<Rightarrow> return_convert_error dr v err
         | Inr n \<Rightarrow> leave_clause (NewCommandValue (dr_Name dr) ValueTypeInt64 (VInt64 (of_int n))))
      else if t = ValueTypeInt64Array then
        (case json_Unmarshal_ints E 64 v of
           Inl err \<Rightarrow> return_convert_error dr v err
         | Inr arr \<Rightarrow>
             leave_clause
               (NewCommandValue (dr_Name dr) ValueTypeInt64Array (VInt64Array (map of_int arr))))
      else if t = ValueTypeFloat32 then leave_clause (clause_Float32 E dr v)
      else if t = ValueTypeFloat32Array then
        (case json_Unmarshal_float32s E v of
           Inl err \<Rightarrow> return_convert_error dr v err
         | Inr arr \<Rightarrow>
             leave_clause
               (NewCommandValue (dr_Name dr) ValueTypeFloat32Array (VFloat32Array arr)))
      else if t = ValueTypeFloat64 then leave_clause (clause_Float64 E dr v)
      else if t = ValueTypeFloat64Array then
        (case json_Unmarshal_float64s E v of
           Inl err \<Rightarrow> return_convert_error dr v err
         | Inr arr \<Rightarrow>
             leave_clause
               (NewCommandValue (dr_Name dr) ValueTypeFloat64Array (VFloat64Array arr)))
      else (None, Some (NewCommonEdgeX KindServerError ''unrecognized value type'' None)))"

section \<open>The Command Processor\<close>

record CommandProcessor =
  device :: Device
  sourceName :: string
  correlationID :: string
  body :: string
  attributes :: string

definition NewCommandProcessor ::
  "Device \<Rightarrow> string \<Rightarrow> string \<Rightarrow> string \<Rightarrow> string \<Rightarrow> CommandProcessor" where
  "NewCommandProcessor dev src cid b attrs =
     \<lparr>device = dev, sourceName = src, correlationID = cid, body = b, attributes = attrs\<rparr>"

subsection \<open>Maps on the heap\<close>

text \<open>\<^verbatim>\<open>len(m)\<close>: 0 for the nil map.\<close>

definition len_map :: "state \<Rightarrow> map_ref \<Rightarrow> nat" where
  "len_map st m = (case m of None \<Rightarrow> 0 | Some a \<Rightarrow> length (maps st a))"

text \<open>\<^verbatim>\<open>make(map[string]string)\<close>: a new, empty map at an unused address.\<close>

definition make_map :: "state \<Rightarrow> nat \<times> state" where
  "make_map st =
     (next_map st, st\<lparr>maps := (maps st)(next_map st := []), next_map := Suc (next_map st)\<rparr>)"

text \<open>\<^verbatim>\<open>m[k] = v\<close> on the map at address \<open>a\<close>: every reference to \<open>a\<close> sees the entry.\<close>

definition map_assign :: "nat \<Rightarrow> string \<Rightarrow> string \<Rightarrow> state \<Rightarrow> state" where
  "map_assign a k v st = st\<lparr>maps := (maps st)(a := AList.update k v (maps st a))\<rparr>"

text \<open>\<^verbatim>\<open>m[k]\<close> on a map given by its entries: the empty string for a key that is absent.\<close>

definition index_entries :: "entries \<Rightarrow> string \<Rightarrow> string" where
  "index_entries m k = (case map_of m k of None \<Rightarrow> [] | Some v \<Rightarrow> v)"

subsection \<open>The Request Builder (lines 130-138, 190-198, 258-266, 374-382)\<close>

text \<open>
  The four copies of the request's attribute assignment:
  \<^verbatim>\<open>req.Attributes = dr.Attributes\<close> copies the reference; with a raw query, a map is made
  only when the declared one is nil or empty, and the raw query is stored in the map the
  request refers to. (The request's map is never nil at the assignment: a map of
  positive length is not nil.)
\<close>

definition request_attributes :: "string \<Rightarrow> map_ref \<Rightarrow> state \<Rightarrow> map_ref \<times> state" where
  "request_attributes query declared st =
     (if query \<noteq> [] then
        (let (attrs, st1) =
               (if len_map st declared \<le> 0 then
                  (let (a, st0) = make_map st in (Some a, st0))
                else (declared, st))
         in case attrs of
              Some a \<Rightarrow> (attrs, map_assign a URLRawQuery query st1)
            | None \<Rightarrow> (attrs, st1))
      else (declared, st))"

definition prepare_CommandRequest ::
  "string \<Rightarrow> string \<Rightarrow> map_ref \<Rightarrow> string \<Rightarrow> state \<Rightarrow> CommandRequest \<times> state" where
  "prepare_CommandRequest query name declared valueType st =
     (let (attrs, st1) = request_attributes query declared st
      in (\<lparr>DeviceResourceName = name, req_Attributes = attrs, req_Type = valueType\<rparr>, st1))"

subsection \<open>Calls of the driver\<close>

text \<open>Each call is recorded, as a test double counting the invocations would.\<close>

definition call_HandleReadCommands ::
  "env \<Rightarrow> CommandProcessor \<Rightarrow> CommandRequest list \<Rightarrow> state
     \<Rightarrow> (CommandValue list \<times> go_error option) \<times> state" where
  "call_HandleReadCommands E c reqs st =
     (HandleReadCommands E (dev_Name (device c)) (Protocols (device c)) reqs (maps st),
      st\<lparr>driver_calls := driver_calls st @ [ReadCall (dev_Name (device c)) reqs]\<rparr>)"

definition call_HandleWriteCommands ::
  "env \<Rightarrow> CommandProcessor \<Rightarrow> CommandRequest list \<Rightarrow> CommandValue list \<Rightarrow> state
     \<Rightarrow> go_error option \<times> state" where
  "call_HandleWriteCommands E c reqs cvs st =
     (HandleWriteCommands E (dev_Name (device c)) (Protocols (device c)) reqs cvs (maps st),
      st\<lparr>driver_calls := driver_calls st @ [WriteCall (dev_Name (device c)) reqs cvs]\<rparr>)"

subsection \<open>ReadDeviceResource (lines 111-156)\<close>

definition ReadDeviceResource ::
  "env \<Rightarrow> CommandProcessor \<Rightarrow> state \<Rightarrow> (Event option \<times> go_error option) outcome \<times> state" where
  "ReadDeviceResource E c st =
     (case Profiles_DeviceResource E (ProfileName (device c)) (sourceName c) of
        None \<Rightarrow>
          (Return (None, Some (NewCommonEdgeX KindEntityDoesNotExist
             (''deviceResource '' @ sourceName c @ '' not found'') None)), st)
      | Some dr \<Rightarrow>
          if ReadWrite (Properties dr) = ReadWrite_W then
            (Return (None, Some (NewCommonEdgeX KindNotAllowed
               (''deviceResource '' @ dr_Name dr @ '' is marked as write-only'') None)), st)
          else
            (let (req, st1) =
                   prepare_CommandRequest (attributes c) (dr_Name dr) (Attributes dr)
                     (ValueType (Properties dr)) st;
                 reqs = [req];
                 ((results, err), st2) = call_HandleReadCommands E c reqs st1
             in case err of
                  Some cause \<Rightarrow>
                    (Return (None, Some (NewCommonEdgeX KindServerError
                       (''error reading DeviceResourece '' @ dr_Name dr @ '' for '' @
                        dev_Name (device c)) (Some cause))), st2)
                | None \<Rightarrow>
                    (case CommandValuesToEventDTO E results (dev_Name (device c)) (dr_Name dr) of
                       (res, Some e) \<Rightarrow>
                         (Return (res, Some (NewCommonEdgeX KindServerError
                            ''failed to convert CommandValue to Event'' (Some e))), st2)
                     | (res, None) \<Rightarrow> (Return (res, None), st2))))"

subsection \<open>ReadDeviceCommand (lines 158-216)\<close>

text \<open>The loop of lines 181-199: one request per Resource Operation, in declared order.\<close>

fun read_requests ::
  "env \<Rightarrow> CommandProcessor \<Rightarrow> DeviceCommand \<Rightarrow> ResourceOperation list \<Rightarrow> CommandRequest list
     \<Rightarrow> state \<Rightarrow> (go_error + CommandRequest list) \<times> state" where
  "read_requests E c dc [] reqs st = (Inr reqs, st)"
| "read_requests E c dc (op # ops) reqs st =
     (let drName = ro_DeviceResource op in
      case Profiles_DeviceResource E (ProfileName (device c)) drName of
        None \<Rightarrow>
          (Inl (NewCommonEdgeX KindServerError
             (''deviceResource '' @ drName @ '' in GET commnd '' @ dc_Name dc @ '' for '' @
              dev_Name (device c) @ '' not defined'') None), st)
      | Some dr \<Rightarrow>
          (let (req, st1) =
                 prepare_CommandRequest (attributes c) (dr_Name dr) (Attributes dr)
                   (ValueType (Properties dr)) st
           in read_requests E c dc ops (reqs @ [req]) st1))"

definition ReadDeviceCommand ::
  "env \<Rightarrow> CommandProcessor \<Rightarrow> state \<Rightarrow> (Event option \<times> go_error option) outcome \<times> state" where
  "ReadDeviceCommand E c st =
     (case Profiles_DeviceCommand E (ProfileName (device c)) (sourceName c) of
        None \<Rightarrow>
          (Return (None, Some (NewCommonEdgeX KindEntityDoesNotExist
             (''deviceCommand '' @ sourceName c @ '' not found'') None)), st)
      | Some dc \<Rightarrow>
          if dc_ReadWrite dc = ReadWrite_W then
            (Return (None, Some (NewCommonEdgeX KindNotAllowed
               (''deviceCommand '' @ dc_Name dc @ '' is marked as write-only'') None)), st)
          else if int (length (ResourceOperations dc)) > MaxCmdOps (ConfigurationFrom E) then
            (Return (None, Some (NewCommonEdgeX KindServerError
               (''GET command '' @ dc_Name dc @ '' exceed device '' @ dev_Name (device c) @
                '' MaxCmdOps ('' @ show_int (MaxCmdOps (ConfigurationFrom E)) @ '')'') None)), st)
          else
            (case read_requests E c dc (ResourceOperations dc) [] st of
               (Inl e, st1) \<Rightarrow> (Return (None, Some e), st1)
             | (Inr reqs, st1) \<Rightarrow>
                 (let ((results, err), st2) = call_HandleReadCommands E c reqs st1
                  in case err of
                       Some cause \<Rightarrow>
                         (Return (None, Some (NewCommonEdgeX KindServerError
                            (''error reading DeviceCommand '' @ dc_Name dc @ '' for '' @
                             dev_Name (device c)) (Some cause))), st2)
                     | None \<Rightarrow>
                         (case CommandValuesToEventDTO E results (dev_Name (device c))
                                 (dc_Name dc) of
                            (res, Some e) \<Rightarrow>
                              (Return (res, Some (NewCommonEdgeX KindServerError
                                 ''failed to transform CommandValue to Event'' (Some e))), st2)
                          | (res, None) \<Rightarrow> (Return (res, None), st2)))))"

subsection \<open>parseParams (lines 404-416)\<close>

definition parseParams :: "env \<Rightarrow> string \<Rightarrow> go_error + entries" where
  "parseParams E params =
     (case json_Unmarshal_map E params of
        Inl err \<Rightarrow> Inl err
      | Inr paramMap \<Rightarrow>
          if length paramMap = 0 then Inl (Errorf ''no parameters specified'')
          else Inr paramMap)"

subsection \<open>WriteDeviceResource (lines 218-286)\<close>

definition WriteDeviceResource ::
  "env \<Rightarrow> CommandProcessor \<Rightarrow> state \<Rightarrow> go_error option outcome \<times> state" where
  "WriteDeviceResource E c st =
     (case Profiles_DeviceResource E (ProfileName (device c)) (sourceName c) of
        None \<Rightarrow>
          (Return (Some (NewCommonEdgeX KindEntityDoesNotExist
             (''deviceResource '' @ sourceName c @ '' not found'') None)), st)
      | Some dr \<Rightarrow>
          if ReadWrite (Properties dr) = ReadWrite_R then
            (Return (Some (NewCommonEdgeX KindNotAllowed
               (''deviceResource '' @ dr_Name dr @ '' is marked as read-only'') None)), st)
          else
            (case parseParams E (body c) of
               Inl err \<Rightarrow>
                 (Return (Some (NewCommonEdgeX KindServerError
                    ''failed to parse SET command parameters'' (Some err))), st)
             | Inr paramMap \<Rightarrow>
                 (case (case map_of paramMap (dr_Name dr) of
                          Some v \<Rightarrow> Some v
                        | None \<Rightarrow>
                            if DefaultValue (Properties dr) \<noteq> [] then
                              Some (DefaultValue (Properties dr))
                            else None) of
                    None \<Rightarrow>
                      (Return (Some (NewCommonEdgeX KindServerError
                         (''deviceResource '' @ dr_Name dr @
                          '' not found in request body and no default value defined'') None)), st)
                  | Some v \<Rightarrow>
                      (case createCommandValueFromDeviceResource E dr v of
                         (cv, Some err) \<Rightarrow>
                           (Return (Some (NewCommonEdgeX KindServerError
                              ''failed to create CommandValue'' (Some err))), st)
                       | (None, None) \<Rightarrow> (Panic, st)
                       | (Some cv, None) \<Rightarrow>
                           (let (req, st1) =
                                  prepare_CommandRequest (attributes c) (cv_DeviceResourceName cv)
                                    (Attributes dr) (cv_Type cv) st;
                                reqs = [req]
                            in case (if DataTransform (ConfigurationFrom E) then
                                       TransformWriteParameter E cv (Properties dr)
                                     else (cv, None)) of
                                 (cv1, Some err) \<Rightarrow>
                                   (Return (Some (NewCommonEdgeX KindContractInvalid
                                      ''failed to transform set parameter'' (Some err))), st1)
                               | (cv1, None) \<Rightarrow>
                                   (let (err, st2) = call_HandleWriteCommands E c reqs [cv1] st1
                                    in case err of
                                         Some cause \<Rightarrow>
                                           (Return (Some (NewCommonEdgeX KindServerError
                                              (''error writing DeviceResourece '' @ dr_Name dr @
                                               '' for '' @ dev_Name (device c)) (Some cause))), st2)
                                       | None \<Rightarrow> (Return None, st2)))))))"

subsection \<open>WriteDeviceCommand (lines 288-402)\<close>

text \<open>
  Lines 332-343: the textual value of one Resource Operation, from the parsed body,
  the operation's default or the resource's default; \<open>Inl\<close> is the error returned when
  there is none.
\<close>

definition request_value ::
  "entries \<Rightarrow> ResourceOperation \<Rightarrow> DeviceResource \<Rightarrow> go_error + string" where
  "request_value paramMap ro dr =
     (case map_of paramMap (ro_DeviceResource ro) of
        Some v \<Rightarrow> Inr v
      | None \<Rightarrow>
          if ro_DefaultValue ro \<noteq> [] then Inr (ro_DefaultValue ro)
          else if DefaultValue (Properties dr) \<noteq> [] then Inr (DefaultValue (Properties dr))
          else Inl (NewCommonEdgeX KindServerError
                 (''deviceResource '' @ dr_Name dr @
                  '' not found in request body and no default value defined'') None))"

text \<open>
  Lines 345-358: the range over the mapping table stops at the first entry visited whose
  value is the candidate and takes that entry's key. Without a match the candidate
  stays (line 356 logs a warning, which changes nothing else).
\<close>

fun range_Mappings :: "entries \<Rightarrow> string \<Rightarrow> string" where
  "range_Mappings [] v = v"
| "range_Mappings ((k, v0) # rest) v = (if v0 = v then k else range_Mappings rest v)"

definition write_value_mapping :: "ResourceOperation \<Rightarrow> string \<Rightarrow> string" where
  "write_value_mapping ro v =
     (if length (Mappings ro) > 0 then range_Mappings (Mappings ro) v else v)"

text \<open>
  The loop of lines 317-367. A pointer is \<open>None\<close> when it is nil: line 363 appends
  whatever pointer the codec returned with a nil error.
\<close>

fun create_CommandValues ::
  "env \<Rightarrow> CommandProcessor \<Rightarrow> DeviceCommand \<Rightarrow> entries \<Rightarrow> ResourceOperation list
     \<Rightarrow> CommandValue option list \<Rightarrow> go_error + CommandValue option list" where
  "create_CommandValues E c dc paramMap [] cvs = Inr cvs"
| "create_CommandValues E c dc paramMap (ro # ros) cvs =
     (let drName = ro_DeviceResource ro in
      case Profiles_DeviceResource E (ProfileName (device c)) drName of
        None \<Rightarrow>
          Inl (NewCommonEdgeX KindServerError
            (''deviceResource '' @ drName @ '' in SET commnd '' @ dc_Name dc @ '' for '' @
             dev_Name (device c) @ '' not defined'') None)
      | Some dr \<Rightarrow>
          if ReadWrite (Properties dr) = ReadWrite_R then
            Inl (NewCommonEdgeX KindNotAllowed
              (''deviceResource '' @ drName @ '' in SET command '' @ dc_Name dc @
               '' is marked as read-only'') None)
          else
            (case request_value paramMap ro dr of
               Inl e \<Rightarrow> Inl e
             | Inr v \<Rightarrow>
                 (case createCommandValueFromDeviceResource E dr (write_value_mapping ro v) of
                    (cv, None) \<Rightarrow> create_CommandValues E c dc paramMap ros (cvs @ [cv])
                  | (cv, Some err) \<Rightarrow>
                      Inl (NewCommonEdgeX KindServerError
                        ''failed to create CommandValue'' (Some err)))))"

text \<open>The zero value of the struct, which line 372 gets when the lookup fails.\<close>

definition zero_DeviceResource :: DeviceResource where
  "zero_DeviceResource =
     \<lparr>dr_Name = [],
      Properties = \<lparr>ValueType = [], ReadWrite = [], DefaultValue = [], OtherProperties = []\<rparr>,
      Attributes = None\<rparr>"

text \<open>
  The loop of lines 371-391 over the pointers collected: \<open>reqs\<close> and \<open>sent\<close> are the
  requests filled and the values passed so far (a transformed value is seen through
  its pointer by the driver). Reading a field through a nil pointer panics.
\<close>

fun prepare_CommandRequests ::
  "env \<Rightarrow> CommandProcessor \<Rightarrow> CommandValue option list \<Rightarrow> CommandRequest list
     \<Rightarrow> CommandValue list \<Rightarrow> state
     \<Rightarrow> (go_error + CommandRequest list \<times> CommandValue list) outcome \<times> state" where
  "prepare_CommandRequests E c [] reqs sent st = (Return (Inr (reqs, sent)), st)"
| "prepare_CommandRequests E c (None # cvs) reqs sent st = (Panic, st)"
| "prepare_CommandRequests E c (Some cv # cvs) reqs sent st =
     (let dr = (case Profiles_DeviceResource E (ProfileName (device c))
                       (cv_DeviceResourceName cv) of
                  Some d \<Rightarrow> d
                | None \<Rightarrow> zero_DeviceResource);
          (req, st1) =
            prepare_CommandRequest (attributes c) (cv_DeviceResourceName cv) (Attributes dr)
              (cv_Type cv) st
      in case (if DataTransform (ConfigurationFrom E) then
                 TransformWriteParameter E cv (Properties dr)
               else (cv, None)) of
           (cv1, Some err) \<Rightarrow>
             (Return (Inl (NewCommonEdgeX KindContractInvalid
                ''failed to transform set parameter'' (Some err))), st1)
         | (cv1, None) \<Rightarrow> prepare_CommandRequests E c cvs (reqs @ [req]) (sent @ [cv1]) st1)"

definition WriteDeviceCommand ::
  "env \<Rightarrow> CommandProcessor \<Rightarrow> state \<Rightarrow> go_error option outcome \<times> state" where
  "WriteDeviceCommand E c st =
     (case Profiles_DeviceCommand E (ProfileName (device c)) (sourceName c) of
        None \<Rightarrow>
          (Return (Some (NewCommonEdgeX KindEntityDoesNotExist
             (''deviceCommand '' @ sourceName c @ '' not found'') None)), st)
      | Some dc \<Rightarrow>
          if dc_ReadWrite dc = ReadWrite_R then
            (Return (Some (NewCommonEdgeX KindNotAllowed
               (''deviceCommand '' @ dc_Name dc @ '' is marked as read-only'') None)), st)
          else if int (length (ResourceOperations dc)) > MaxCmdOps (ConfigurationFrom E) then
            (Return (Some (NewCommonEdgeX KindServerError
               (''SET command '' @ dc_Name dc @ '' exceed device '' @ dev_Name (device c) @
                '' MaxCmdOps ('' @ show_int (MaxCmdOps (ConfigurationFrom E)) @ '')'') None)), st)
          else
            (case parseParams E (body c) of
               Inl err \<Rightarrow>
                 (Return (Some (NewCommonEdgeX KindServerError
                    ''failed to parse SET command parameters'' (Some err))), st)
             | Inr paramMap \<Rightarrow>
                 (case create_CommandValues E c dc paramMap (ResourceOperations dc) [] of
                    Inl e \<Rightarrow> (Return (Some e), st)
                  | Inr cvs \<Rightarrow>
                      (case prepare_CommandRequests E c cvs [] [] st of
                         (Panic, st1) \<Rightarrow> (Panic, st1)
                       | (Return (Inl e), st1) \<Rightarrow> (Return (Some e), st1)
                       | (Return (Inr (reqs, cvs1)), st1) \<Rightarrow>
                           (let (err, st2) = call_HandleWriteCommands E c reqs cvs1 st1
                            in case err of
                                 Some cause \<Rightarrow>
                                   (Return (Some (NewCommonEdgeX KindServerError
                                      (''error writing DeviceCommand '' @ dc_Name dc @
                                       '' for '' @ dev_Name (device c)) (Some cause))), st2)
                               | None \<Rightarrow> (Return None, st2))))))"

section \<open>The entry point: CommandHandler (lines 53-109)\<close>

text \<open>
  The deferred function of lines 79-91 runs when the handler is left after line 79, also
  when it is left by a panic. It reads the named results \<open>res\<close> and \<open>err\<close>: the values
  being returned, or nil for both during a panic (no \<^verbatim>\<open>return\<close> has set them).
\<close>

definition deferred ::
  "env \<Rightarrow> Device \<Rightarrow> bool \<Rightarrow> string \<Rightarrow> Event option \<Rightarrow> go_error option \<Rightarrow> state \<Rightarrow> state" where
  "deferred E dev sendEvent cid res err st =
     (if err \<noteq> None then st
      else
        (let st1 = (if UpdateLastConnected (ConfigurationFrom E) then
                      st\<lparr>goroutines := goroutines st @ [GoUpdateLastConnected (dev_Name dev)]\<rparr>
                    else st)
         in case res of
              Some ev \<Rightarrow>
                if sendEvent then st1\<lparr>goroutines := goroutines st1 @ [GoSendEvent ev cid]\<rparr>
                else st1
            | None \<Rightarrow> st1))"

definition CommandHandler ::
  "env \<Rightarrow> bool \<Rightarrow> bool \<Rightarrow> string \<Rightarrow> entries \<Rightarrow> string \<Rightarrow> string \<Rightarrow> state
     \<Rightarrow> (Event option \<times> go_error option) outcome \<times> state" where
  "CommandHandler E isRead sendEvent cid vars bdy attrs st =
     (if ds_AdminState (DeviceServiceFrom E) = Locked then
        (Return (None, Some (NewCommonEdgeX KindServiceLocked ''service locked'' None)), st)
      else
        (let deviceKey = index_entries vars Name in
         case Devices_ForName E deviceKey of
           None \<Rightarrow>
             (Return (None, Some (NewCommonEdgeX KindEntityDoesNotExist
                (''device '' @ deviceKey @ '' not found'') None)), st)
         | Some dev \<Rightarrow>
             if AdminState dev = Locked then
               (Return (None, Some (NewCommonEdgeX KindServiceLocked
                  (''device '' @ dev_Name dev @ '' locked'') None)), st)
             else if OperatingState dev = Down then
               (Return (None, Some (NewCommonEdgeX KindServiceLocked
                  (''device '' @ dev_Name dev @ '' OperatingState is DOWN'') None)), st)
             else
               (let cmd = index_entries vars Command;
                    helper = NewCommandProcessor dev cmd cid bdy attrs;
                    cmdExist = (Profiles_DeviceCommand E (ProfileName dev) cmd \<noteq> None);
                    (out, st1) =
                      (if cmdExist then
                         (if isRead then ReadDeviceCommand E helper st
                          else (case WriteDeviceCommand E helper st of
                                  (Return e, s) \<Rightarrow> (Return (None, e), s)
                                | (Panic, s) \<Rightarrow> (Panic, s)))
                       else
                         (if isRead then ReadDeviceResource E helper st
                          else (case WriteDeviceResource E helper st of
                                  (Return e, s) \<Rightarrow> (Return (None, e), s)
                                | (Panic, s) \<Rightarrow> (Panic, s))))
                in case out of
                     Return (res, err) \<Rightarrow> (out, deferred E dev sendEvent cid res err st1)
                   | Panic \<Rightarrow> (Panic, deferred E dev sendEvent cid None None st1))))"

section \<open>Reading results\<close>

text \<open>A call fails with kind \<open>k\<close> when it returns an EdgeX error of that kind.\<close>

fun fails_with :: "ErrKind \<Rightarrow> go_error option outcome \<Rightarrow> bool" where
  "fails_with k (Return err) = (errKind err = Some k)"
| "fails_with k Panic = False"

text \<open>The error of a call that returns an event with it.\<close>

definition error_of ::
  "(Event option \<times> go_error option) outcome \<Rightarrow> go_error option outcome" where
  "error_of out = map_outcome snd out"

section \<open>A sample profile\<close>

text \<open>
  A thermostat with six resources and four composite commands, a driver and a
  transformer that accept everything, and stand-ins for the two parsers that know the
  texts used below. The examples after the theorems run on it.
\<close>

definition thermostat :: Device where
  "thermostat =
     \<lparr>dev_Name = ''thermo1'', ProfileName = ''thermostat'', AdminState = ''UNLOCKED'',
      OperatingState = ''UP'', Protocols = []\<rparr>"

definition res_temp :: DeviceResource where
  "res_temp =
     \<lparr>dr_Name = ''temp'',
      Properties = \<lparr>ValueType = ValueTypeFloat32, ReadWrite = ''RW'', DefaultValue = [],
                    OtherProperties = []\<rparr>,
      Attributes = Some 0\<rparr>"

definition res_limit :: DeviceResource where
  "res_limit =
     \<lparr>dr_Name = ''limit'',
      Properties = \<lparr>ValueType = ValueTypeFloat64, ReadWrite = ''RW'', DefaultValue = [],
                    OtherProperties = []\<rparr>,
      Attributes = None\<rparr>"

definition res_mode :: DeviceResource where
  "res_mode =
     \<lparr>dr_Name = ''mode'',
      Properties = \<lparr>ValueType = ValueTypeString, ReadWrite = ''RW'', DefaultValue = ''auto'',
                    OtherProperties = []\<rparr>,
      Attributes = Some 1\<rparr>"

definition res_power :: DeviceResource where
  "res_power =
     \<lparr>dr_Name = ''power'',
      Properties = \<lparr>ValueType = ValueTypeBool, ReadWrite = ''RW'', DefaultValue = [],
                    OtherProperties = []\<rparr>,
      Attributes = None\<rparr>"

definition res_serial :: DeviceResource where
  "res_serial =
     \<lparr>dr_Name = ''serial'',
      Properties = \<lparr>ValueType = ValueTypeString, ReadWrite = ''R'', DefaultValue = [],
                    OtherProperties = []\<rparr>,
      Attributes = None\<rparr>"

definition res_reset :: DeviceResource where
  "res_reset =
     \<lparr>dr_Name = ''reset'',
      Properties = \<lparr>ValueType = ValueTypeBool, ReadWrite = ''W'', DefaultValue = [],
                    OtherProperties = []\<rparr>,
      Attributes = None\<rparr>"

definition op_for :: "string \<Rightarrow> ResourceOperation" where
  "op_for name = \<lparr>ro_DeviceResource = name, ro_DefaultValue = [], Mappings = []\<rparr>"

definition op_power :: ResourceOperation where
  "op_power =
     \<lparr>ro_DeviceResource = ''power'', ro_DefaultValue = ''true'',
      Mappings = [(''true'', ''ON''), (''false'', ''OFF'')]\<rparr>"

definition cmd_setpoint :: DeviceCommand where
  "cmd_setpoint =
     \<lparr>dc_Name = ''setpoint'', dc_ReadWrite = ''RW'',
      ResourceOperations = [op_power, op_for ''temp'', op_for ''mode'']\<rparr>"

definition cmd_identify :: DeviceCommand where
  "cmd_identify =
     \<lparr>dc_Name = ''identify'', dc_ReadWrite = ''RW'',
      ResourceOperations = [op_for ''power'', op_for ''serial'']\<rparr>"

definition cmd_restart :: DeviceCommand where
  "cmd_restart =
     \<lparr>dc_Name = ''restart'', dc_ReadWrite = ''W'',
      ResourceOperations = [op_for ''reset'', op_for ''power'', op_for ''mode'']\<rparr>"

definition cmd_report :: DeviceCommand where
  "cmd_report =
     \<lparr>dc_Name = ''report'', dc_ReadWrite = ''R'',
      ResourceOperations = [op_for ''serial'', op_for ''mode'']\<rparr>"

definition sample_atof32 :: "string \<Rightarrow> go_error + float32" where
  "sample_atof32 s =
     (if s = ''1.5'' then Inr 0x3FC00000
      else if s = ''1e39'' then Inl (NumError ErrRange)
      else Inl (NumError ErrSyntax))"

definition sample_atof64 :: "string \<Rightarrow> go_error + float64" where
  "sample_atof64 s =
     (if s = ''1.5'' then Inr 0x3FF8000000000000
      else if s = ''1e309'' then Inl (NumError ErrRange)
      else Inl (NumError ErrSyntax))"

text \<open>
  The bodies stand for the JSON objects \<^verbatim>\<open>{"temp":"abc"}\<close>,
  \<^verbatim>\<open>{"power":"ON","temp":"abc","mode":"eco"}\<close>, \<^verbatim>\<open>{"power":"ON","temp":"1.5"}\<close>,
  \<^verbatim>\<open>{"mode":"eco"}\<close>, \<^verbatim>\<open>{"temp":"NaN"}\<close>, \<^verbatim>\<open>{"power":"true"}\<close>,
  \<^verbatim>\<open>{"power":"true","temp":"1.5"}\<close>, \<^verbatim>\<open>{"temp":"1.5"}\<close> and \<^verbatim>\<open>{"power":"maybe"}\<close>; the
  quotation marks are left out of the texts.
\<close>

definition sample_Unmarshal :: "string \<Rightarrow> go_error + entries" where
  "sample_Unmarshal s =
     (if s = ''{temp:abc}'' then Inr [(''temp'', ''abc'')]
      else if s = ''{power:ON,temp:abc,mode:eco}'' then
        Inr [(''power'', ''ON''), (''temp'', ''abc''), (''mode'', ''eco'')]
      else if s = ''{power:ON,temp:1.5}'' then Inr [(''power'', ''ON''), (''temp'', ''1.5'')]
      else if s = ''{mode:eco}'' then Inr [(''mode'', ''eco'')]
      else if s = ''{temp:NaN}'' then Inr [(''temp'', ''NaN'')]
      else if s = ''{power:true}'' then Inr [(''power'', ''true'')]
      else if s = ''{power:true,temp:1.5}'' then Inr [(''power'', ''true''), (''temp'', ''1.5'')]
      else if s = ''{temp:1.5}'' then Inr [(''temp'', ''1.5'')]
      else if s = ''{power:maybe}'' then Inr [(''power'', ''maybe'')]
      else if s = ''{}'' then Inr []
      else Inl (ExternalError ''invalid character''))"

definition sample :: env where
  "sample =
     \<lparr>atof32 = sample_atof32,
      atof64 = sample_atof64,
      json_Unmarshal_map = sample_Unmarshal,
      json_Unmarshal_bools = (\<lambda>s. Inl (ExternalError ''invalid character'')),
      json_Unmarshal_ints = (\<lambda>n s. Inl (ExternalError ''invalid character'')),
      json_Unmarshal_float32s = (\<lambda>s. Inl (ExternalError ''invalid character'')),
      json_Unmarshal_float64s = (\<lambda>s. Inl (ExternalError ''invalid character'')),
      DeviceServiceFrom = \<lparr>ds_AdminState = ''UNLOCKED''\<rparr>,
      ConfigurationFrom = \<lparr>MaxCmdOps = 2, DataTransform = False, UpdateLastConnected = False\<rparr>,
      Devices_ForName = (\<lambda>n. if n = ''thermo1'' then Some thermostat else None),
      Profiles_DeviceCommand =
        (\<lambda>p n. if p = ''thermostat'' then
                  map_of [(''setpoint'', cmd_setpoint), (''identify'', cmd_identify),
                          (''restart'', cmd_restart), (''report'', cmd_report)] n
                else None),
      Profiles_DeviceResource =
        (\<lambda>p n. if p = ''thermostat'' then
                  map_of [(''temp'', res_temp), (''limit'', res_limit), (''mode'', res_mode),
                          (''power'', res_power), (''serial'', res_serial),
                          (''reset'', res_reset)] n
                else None),
      HandleReadCommands = (\<lambda>name protocols reqs heap. ([], None)),
      HandleWriteCommands = (\<lambda>name protocols reqs cvs heap. None),
      CommandValuesToEventDTO = (\<lambda>cvs dev src. (Some (Event dev src cvs), None)),
      TransformWriteParameter = (\<lambda>cv pv. (cv, None))\<rparr>"

text \<open>
  The heap at the start: the attribute maps of \<open>temp\<close> (one entry) and of \<open>mode\<close>
  (empty) at addresses 0 and 1; no driver call and no goroutine yet.
\<close>

definition heap0 :: state where
  "heap0 =
     \<lparr>maps = (\<lambda>a. if a = 0 then [(''unit'', ''C'')] else []), next_map = 2,
      driver_calls = [], goroutines = []\<rparr>"

definition on_thermostat :: "string \<Rightarrow> string \<Rightarrow> string \<Rightarrow> CommandProcessor" where
  "on_thermostat src b attrs = NewCommandProcessor thermostat src ''c-1'' b attrs"

text \<open>The sample profile with room for three operations in a command.\<close>

definition sample3 :: env where
  "sample3 =
     sample\<lparr>ConfigurationFrom :=
       \<lparr>MaxCmdOps = 3, DataTransform = False, UpdateLastConnected = False\<rparr>\<rparr>"

text \<open>The sample profile with room for one operation only.\<close>

definition sample1 :: env where
  "sample1 =
     sample\<lparr>ConfigurationFrom :=
       \<lparr>MaxCmdOps = 1, DataTransform = False, UpdateLastConnected = False\<rparr>\<rparr>"

definition locked_service :: env where
  "locked_service = sample\<lparr>DeviceServiceFrom := \<lparr>ds_AdminState = ''LOCKED''\<rparr>\<rparr>"

definition with_device :: "Device \<Rightarrow> env" where
  "with_device d = sample\<lparr>Devices_ForName := (\<lambda>n. if n = ''thermo1'' then Some d else None)\<rparr>"


section \<open>What an invocation may do to the attribute maps\<close>

text \<open>
  \<open>raw_query_stored q declared st st'\<close>: of the maps that were on the heap in \<open>st\<close>,
  those that \<open>declared\<close> refers to and that were not empty have got the raw query \<open>q\<close>
  under the reserved key, all their other entries as they were, and every other map has
  the entries it had; maps may have been added. (Without a raw query no map has
  changed.)
\<close>

definition raw_query_stored :: "string \<Rightarrow> map_ref list \<Rightarrow> state \<Rightarrow> state \<Rightarrow> bool" where
  "raw_query_stored q declared st st' =
     (next_map st \<le> next_map st' \<and>
      list_all
        (\<lambda>a. maps st' a =
               (if q \<noteq> [] \<and> Some a \<in> set declared \<and> maps st a \<noteq> [] then
                  AList.update URLRawQuery q (maps st a)
                else maps st a))
        [0 ..< next_map st])"

text \<open>
  \<open>request_refers q st st' req declared\<close>: which map the request \<open>req\<close> refers to, when
  it was built from the heap \<open>st\<close> for a declaration whose attribute map is \<open>declared\<close>
  by an invocation that ends in \<open>st'\<close>. Without a raw query it is the declared map. With
  a raw query it is the declared map itself when that is on the heap and not empty; when
  the declared map is nil or empty, it is a map that was made since \<open>st\<close> and that holds
  just the raw query under the reserved key. (Nothing is said of a declared reference to
  an address that is not in use in \<open>st\<close>: no Go value is such a reference.)
\<close>

definition request_refers ::
  "string \<Rightarrow> state \<Rightarrow> state \<Rightarrow> CommandRequest \<Rightarrow> map_ref \<Rightarrow> bool" where
  "request_refers q st st' req declared =
     (if q = [] then req_Attributes req = declared
      else if (case declared of Some a \<Rightarrow> next_map st \<le> a | None \<Rightarrow> False) then True
      else if len_map st declared > 0 then req_Attributes req = declared
      else (case req_Attributes req of
              Some b \<Rightarrow>
                next_map st \<le> b \<and> b < next_map st' \<and> maps st' b = [(URLRawQuery, q)]
            | None \<Rightarrow> False))"



section \<open>The spec's value precedence\<close>


section \<open>Running the sample profile\<close>

text \<open>Equations that evaluate the sample profile and the library functions on the texts
  of the examples.\<close>

lemmas ValueType_defs =
  ValueTypeBool_def ValueTypeString_def ValueTypeUint8_def ValueTypeUint16_def
  ValueTypeUint32_def ValueTypeUint64_def ValueTypeInt8_def ValueTypeInt16_def
  ValueTypeInt32_def ValueTypeInt64_def ValueTypeFloat32_def ValueTypeFloat64_def
  ValueTypeBoolArray_def ValueTypeUint8Array_def ValueTypeUint16Array_def
  ValueTypeUint32Array_def ValueTypeUint64Array_def ValueTypeInt8Array_def
  ValueTypeInt16Array_def ValueTypeInt32Array_def ValueTypeInt64Array_def
  ValueTypeFloat32Array_def ValueTypeFloat64Array_def

lemma DecodeString_examples:
  "DecodeString ''P8AAAA=='' = Inr [0x3F, 0xC0, 0, 0]"
  "DecodeString ''f8AAAA=='' = Inr [0x7F, 0xC0, 0, 0]"
  "DecodeString ''P/gAAAAAAAA='' = Inr [0x3F, 0xF8, 0, 0, 0, 0, 0, 0]"
  "DecodeString ''f/gAAAAAAAE='' = Inr [0x7F, 0xF8, 0, 0, 0, 0, 0, 1]"
  "DecodeString ''abc'' = Inl CorruptInputError"
  by (simp_all add: DecodeString_def decodeMap_def encodeStd_def)

lemma special_examples:
  "special ''P8AAAA=='' = None" "special ''f8AAAA=='' = None"
  "special ''P/gAAAAAAAA='' = None" "special ''f/gAAAAAAAE='' = None"
  "special ''abc'' = None" "special ''1.5'' = None"
  "special ''NaN'' = Some SpecialNaN" "special ''Inf'' = Some (SpecialInf False)"
  "special ''-Inf'' = Some (SpecialInf True)"
  by (simp_all add: special_def lower_def)

lemma BigEndian_examples:
  "(BigEndian [0x3F, 0xC0, 0, 0] :: 32 word) = 0x3FC00000"
  "(BigEndian [0x7F, 0xC0, 0, 0] :: 32 word) = 0x7FC00000"
  "(BigEndian [0x3F, 0xF8, 0, 0, 0, 0, 0, 0] :: 64 word) = 0x3FF8000000000000"
  "(BigEndian [0x7F, 0xF8, 0, 0, 0, 0, 0, 1] :: 64 word) = 0x7FF8000000000001"
  by (simp_all add: BigEndian_def)

lemma IsNaN_examples:
  "\<not> IsNaN32 0x3FC00000" "IsNaN32 0x7FC00000"
  "\<not> IsNaN64 0x3FF8000000000000" "IsNaN64 0x7FF8000000000001"
  by (simp_all add: IsNaN32_def IsNaN64_def)

lemma sample_simps:
  "atof32 sample = sample_atof32" "atof64 sample = sample_atof64"
  "json_Unmarshal_map sample = sample_Unmarshal"
  "DeviceServiceFrom sample = \<lparr>ds_AdminState = ''UNLOCKED''\<rparr>"
  "ConfigurationFrom sample =
     \<lparr>MaxCmdOps = 2, DataTransform = False, UpdateLastConnected = False\<rparr>"
  "Devices_ForName sample n = (if n = ''thermo1'' then Some thermostat else None)"
  "Profiles_DeviceCommand sample ''thermostat'' n =
     map_of [(''setpoint'', cmd_setpoint), (''identify'', cmd_identify),
             (''restart'', cmd_restart), (''report'', cmd_report)] n"
  "Profiles_DeviceResource sample ''thermostat'' n =
     map_of [(''temp'', res_temp), (''limit'', res_limit), (''mode'', res_mode),
             (''power'', res_power), (''serial'', res_serial), (''reset'', res_reset)] n"
  "HandleReadCommands sample name protocols reqs heap = ([], None)"
  "HandleWriteCommands sample name protocols reqs cvs heap = None"
  "CommandValuesToEventDTO sample cvs dev src = (Some (Event dev src cvs), None)"
  "TransformWriteParameter sample cv pv = (cv, None)"
  by (simp_all add: sample_def)

lemma on_thermostat_simps:
  "ProfileName (device (on_thermostat src b attrs)) = ''thermostat''"
  "dev_Name (device (on_thermostat src b attrs)) = ''thermo1''"
  "Protocols (device (on_thermostat src b attrs)) = []"
  "sourceName (on_thermostat src b attrs) = src"
  "body (on_thermostat src b attrs) = b"
  "attributes (on_thermostat src b attrs) = attrs"
  by (simp_all add: on_thermostat_def NewCommandProcessor_def thermostat_def)

lemma res_simps:
  "dr_Name res_temp = ''temp''" "ValueType (Properties res_temp) = ValueTypeFloat32"
  "ReadWrite (Properties res_temp) = ''RW''" "DefaultValue (Properties res_temp) = []"
  "Attributes res_temp = Some 0"
  "dr_Name res_limit = ''limit''" "ValueType (Properties res_limit) = ValueTypeFloat64"
  "ReadWrite (Properties res_limit) = ''RW''" "DefaultValue (Properties res_limit) = []"
  "Attributes res_limit = None"
  "dr_Name res_mode = ''mode''" "ValueType (Properties res_mode) = ValueTypeString"
  "ReadWrite (Properties res_mode) = ''RW''" "DefaultValue (Properties res_mode) = ''auto''"
  "Attributes res_mode = Some 1"
  "dr_Name res_power = ''power''" "ValueType (Properties res_power) = ValueTypeBool"
  "ReadWrite (Properties res_power) = ''RW''" "DefaultValue (Properties res_power) = []"
  "Attributes res_power = None"
  "dr_Name res_serial = ''serial''" "ValueType (Properties res_serial) = ValueTypeString"
  "ReadWrite (Properties res_serial) = ''R''" "DefaultValue (Properties res_serial) = []"
  "Attributes res_serial = None"
  "dr_Name res_reset = ''reset''" "ValueType (Properties res_reset) = ValueTypeBool"
  "ReadWrite (Properties res_reset) = ''W''" "DefaultValue (Properties res_reset) = []"
  "Attributes res_reset = None"
  by (simp_all add: res_temp_def res_limit_def res_mode_def res_power_def res_serial_def
      res_reset_def)

lemma heap0_simps:
  "maps heap0 a = (if a = 0 then [(''unit'', ''C'')] else [])" "next_map heap0 = 2"
  "driver_calls heap0 = []" "goroutines heap0 = []"
  by (simp_all add: heap0_def)

lemma sample3_simps:
  "atof32 sample3 = sample_atof32" "atof64 sample3 = sample_atof64"
  "json_Unmarshal_map sample3 = sample_Unmarshal"
  "ConfigurationFrom sample3 =
     \<lparr>MaxCmdOps = 3, DataTransform = False, UpdateLastConnected = False\<rparr>"
  "Profiles_DeviceCommand sample3 = Profiles_DeviceCommand sample"
  "Profiles_DeviceResource sample3 = Profiles_DeviceResource sample"
  "HandleWriteCommands sample3 = HandleWriteCommands sample"
  "TransformWriteParameter sample3 = TransformWriteParameter sample"
  by (simp_all add: sample3_def sample_simps)

lemma sample1_simps:
  "ConfigurationFrom sample1 =
     \<lparr>MaxCmdOps = 1, DataTransform = False, UpdateLastConnected = False\<rparr>"
  "Profiles_DeviceCommand sample1 = Profiles_DeviceCommand sample"
  "Profiles_DeviceResource sample1 = Profiles_DeviceResource sample"
  by (simp_all add: sample1_def sample_simps)

lemma op_simps:
  "ro_DeviceResource op_power = ''power''" "ro_DefaultValue op_power = ''true''"
  "Mappings op_power = [(''true'', ''ON''), (''false'', ''OFF'')]"
  "ro_DeviceResource (op_for n) = n" "ro_DefaultValue (op_for n) = []"
  "Mappings (op_for n) = []"
  by (simp_all add: op_power_def op_for_def)






section \<open>Eligibility\<close>

text \<open>
  C2. For every invocation (read or write, any operation name) the checks run in the
  order service-wide administrative state, device existence, device-level
  administrative state, device-level operating state, and the first failure ends the
  invocation with the state untouched: a Locked service yields ServiceLocked, whatever
  the device; otherwise an unknown device name yields EntityDoesNotExist; otherwise a
  Locked device yields ServiceLocked; otherwise a device that is Down yields
  ServiceLocked. In particular a device that is Locked or Down fails every invocation
  with ServiceLocked, whatever the operation and the state of the service.
\<close>

theorem CommandHandler_eligibility_order:
  "(ds_AdminState (DeviceServiceFrom E) = Locked \<longrightarrow>
      CommandHandler E isRead sendEvent cid vars bdy attrs st =
        (Return (None, Some (CommonEdgeX KindServiceLocked ''service locked'' None)), st)) \<and>
   (ds_AdminState (DeviceServiceFrom E) \<noteq> Locked \<and>
    Devices_ForName E (index_entries vars Name) = None \<longrightarrow>
      CommandHandler E isRead sendEvent cid vars bdy attrs st =
        (Return (None, Some (CommonEdgeX KindEntityDoesNotExist
           (''device '' @ index_entries vars Name @ '' not found'') None)), st)) \<and>
   (ds_AdminState (DeviceServiceFrom E) \<noteq> Locked \<and>
    Devices_ForName E (index_entries vars Name) = Some dev \<and> AdminState dev = Locked \<longrightarrow>
      CommandHandler E isRead sendEvent cid vars bdy attrs st =
        (Return (None, Some (CommonEdgeX KindServiceLocked
           (''device '' @ dev_Name dev @ '' locked'') None)), st)) \<and>
   (ds_AdminState (DeviceServiceFrom E) \<noteq> Locked \<and>
    Devices_ForName E (index_entries vars Name) = Some dev \<and> AdminState dev \<noteq> Locked \<and>
    OperatingState dev = Down \<longrightarrow>
      CommandHandler E isRead sendEvent cid vars bdy attrs st =
        (Return (None, Some (CommonEdgeX KindServiceLocked
           (''device '' @ dev_Name dev @ '' OperatingState is DOWN'') None)), st)) \<and>
   (Devices_ForName E (index_entries vars Name) = Some dev \<and>
    (AdminState dev = Locked \<or> OperatingState dev = Down) \<longrightarrow>
      fails_with KindServiceLocked
        (error_of (fst (CommandHandler E isRead sendEvent cid vars bdy attrs st))) \<and>
      snd (CommandHandler E isRead sendEvent cid vars bdy attrs st) = st)"
  by (simp add: CommandHandler_def error_of_def NewCommonEdgeX_def Let_def)

text \<open>
  On the sample profile: a locked service, an unknown device, a locked device (a write
  that would otherwise be valid), a device that is down, and a locked device asked for
  an operation that does not exist.
\<close>

theorem CommandHandler_eligibility_order_witness:
  "CommandHandler locked_service True False ''c-1''
     [(''name'', ''nobody''), (''command'', ''temp'')] [] [] heap0 =
     (Return (None, Some (CommonEdgeX KindServiceLocked ''service locked'' None)), heap0) \<and>
   CommandHandler sample True False ''c-1''
     [(''name'', ''nobody''), (''command'', ''temp'')] [] [] heap0 =
     (Return (None, Some (CommonEdgeX KindEntityDoesNotExist ''device nobody not found'' None)),
      heap0) \<and>
   CommandHandler (with_device (thermostat\<lparr>AdminState := ''LOCKED''\<rparr>))
     False False ''c-1'' [(''name'', ''thermo1''), (''command'', ''mode'')]
     ''{mode:eco}'' [] heap0 =
     (Return (None, Some (CommonEdgeX KindServiceLocked ''device thermo1 locked'' None)),
      heap0) \<and>
   CommandHandler (with_device (thermostat\<lparr>OperatingState := ''DOWN''\<rparr>))
     True False ''c-1'' [(''name'', ''thermo1''), (''command'', ''mode'')] [] [] heap0 =
     (Return (None, Some (CommonEdgeX KindServiceLocked
        ''device thermo1 OperatingState is DOWN'' None)), heap0) \<and>
   fails_with KindServiceLocked
     (error_of (fst (CommandHandler (with_device (thermostat\<lparr>AdminState := ''LOCKED''\<rparr>))
        True True ''c-1'' [(''name'', ''thermo1''), (''command'', ''no such operation'')]
        [] [] heap0)))"
proof -
  let ?locked = "thermostat\<lparr>AdminState := ''LOCKED''\<rparr>"
  let ?down = "thermostat\<lparr>OperatingState := ''DOWN''\<rparr>"
  have service: "ds_AdminState (DeviceServiceFrom locked_service) = ''LOCKED''"
    "ds_AdminState (DeviceServiceFrom sample) = ''UNLOCKED''"
    "ds_AdminState (DeviceServiceFrom (with_device d)) = ''UNLOCKED''" for d
    by (simp_all add: locked_service_def with_device_def sample_def)
  have lookup: "Devices_ForName sample ''nobody'' = None"
    "Devices_ForName (with_device d) ''thermo1'' = Some d" for d
    by (simp_all add: with_device_def sample_def)
  have device: "AdminState thermostat = ''UNLOCKED''" "OperatingState thermostat = ''UP''"
    "dev_Name thermostat = ''thermo1''"
    by (simp_all add: thermostat_def)
  have name: "index_entries ((''name'', n) # vs) Name = n" for n vs
    by (simp add: index_entries_def Name_def)
  show ?thesis
    using
      CommandHandler_eligibility_order [where E = locked_service and isRead = True
        and sendEvent = False and cid = "''c-1''"
        and vars = "[(''name'', ''nobody''), (''command'', ''temp'')]"
        and bdy = "[]" and attrs = "[]" and st = heap0 and dev = thermostat]
      CommandHandler_eligibility_order [where E = sample and isRead = True
        and sendEvent = False and cid = "''c-1''"
        and vars = "[(''name'', ''nobody''), (''command'', ''temp'')]"
        and bdy = "[]" and attrs = "[]" and st = heap0 and dev = thermostat]
      CommandHandler_eligibility_order [where E = "with_device ?locked" and isRead = False
        and sendEvent = False and cid = "''c-1''"
        and vars = "[(''name'', ''thermo1''), (''command'', ''mode'')]"
        and bdy = "''{mode:eco}''" and attrs = "[]" and st = heap0 and dev = ?locked]
      CommandHandler_eligibility_order [where E = "with_device ?down" and isRead = True
        and sendEvent = False and cid = "''c-1''"
        and vars = "[(''name'', ''thermo1''), (''command'', ''mode'')]"
        and bdy = "[]" and attrs = "[]" and st = heap0 and dev = ?down]
      CommandHandler_eligibility_order [where E = "with_device ?locked" and isRead = True
        and sendEvent = True and cid = "''c-1''"
        and vars = "[(''name'', ''thermo1''), (''command'', ''no such operation'')]"
        and bdy = "[]" and attrs = "[]" and st = heap0 and dev = ?locked]
    by (simp add: service lookup device name Locked_def Down_def error_of_def)
qed

section \<open>The two loops of a composite write\<close>

text \<open>
  What the loop of lines 317-367 and the loop of lines 371-391 give to the write that runs
  them: the first loop handles a list of operations part by part and only adds to the
  Command Values it has; the second loop does not call the driver, and without the
  transformer it builds one request for each Command Value and passes the values on as
  they are.
\<close>

lemma create_CommandValues_append:
  "create_CommandValues E c dc pm (ros1 @ ros2) cvs =
     (case create_CommandValues E c dc pm ros1 cvs of
        Inl e \<Rightarrow> Inl e
      | Inr cvs1 \<Rightarrow> create_CommandValues E c dc pm ros2 cvs1)"
  by (induction ros1 arbitrary: cvs)
     (auto simp: Let_def split: option.splits sum.splits prod.splits)


lemma prepare_CommandRequest_driver_calls:
  "driver_calls (snd (prepare_CommandRequest q name declared t st)) = driver_calls st"
  by (simp add: prepare_CommandRequest_def request_attributes_def make_map_def map_assign_def
      Let_def split: prod.splits option.splits)

lemma prepare_CommandRequests_driver_calls:
  "driver_calls (snd (prepare_CommandRequests E c cvs reqs sent st)) = driver_calls st"
proof (induction cvs arbitrary: reqs sent st)
  case Nil
  show ?case by simp
next
  case (Cons p cvs)
  show ?case
  proof (cases p)
    case None
    then show ?thesis by simp
  next
    case (Some cv)
    define dr where "dr = (case Profiles_DeviceResource E (ProfileName (device c))
                       (cv_DeviceResourceName cv) of
                  Some d \<Rightarrow> d
                | None \<Rightarrow> zero_DeviceResource)"
    obtain req st1 where p:
      "prepare_CommandRequest (attributes c) (cv_DeviceResourceName cv) (Attributes dr)
         (cv_Type cv) st = (req, st1)"
      by (cases "prepare_CommandRequest (attributes c) (cv_DeviceResourceName cv)
         (Attributes dr) (cv_Type cv) st")
    have first: "driver_calls st1 = driver_calls st"
      using prepare_CommandRequest_driver_calls [of "attributes c" "cv_DeviceResourceName cv"
          "Attributes dr" "cv_Type cv" st] p by simp
    have rest: "driver_calls
        (snd (prepare_CommandRequests E c cvs (reqs @ [req]) (sent @ [cv1]) st1)) =
        driver_calls st1" for cv1
      by (rule Cons.IH)
    show ?thesis
      using Some p first rest
      by (simp add: dr_def [symmetric] split: prod.splits option.splits)
  qed
qed




section \<open>The Mapping Resolver\<close>





section \<open>Value precedence of a composite write\<close>




section \<open>The float kinds of the Value Codec\<close>

text \<open>
  C5. For the 32-bit and the 64-bit float kind: a text that the decimal parse rejects for
  a reason other than the range, and that is the base64 encoding of exactly 4 (or 8)
  bytes whose big-endian float is not NaN, decodes to a Command Value that holds exactly
  that float, with a nil error.
\<close>

theorem float_binary_fallback_decodes:
  "(ValueType (Properties dr) = ValueTypeFloat32 \<and> ParseFloat32 E v = Inl err \<and>
    err \<noteq> NumError ErrRange \<and> DecodeString v = Inr bs \<and> length bs = 4 \<and>
    \<not> IsNaN32 (BigEndian bs) \<longrightarrow>
      createCommandValueFromDeviceResource E dr v =
        (Some \<lparr>cv_DeviceResourceName = dr_Name dr, cv_Type = ValueTypeFloat32,
                cv_Value = VFloat32 (BigEndian bs)\<rparr>, None)) \<and>
   (ValueType (Properties dr) = ValueTypeFloat64 \<and> ParseFloat64 E v = Inl err \<and>
    err \<noteq> NumError ErrRange \<and> DecodeString v = Inr bs \<and> length bs = 8 \<and>
    \<not> IsNaN64 (BigEndian bs) \<longrightarrow>
      createCommandValueFromDeviceResource E dr v =
        (Some \<lparr>cv_DeviceResourceName = dr_Name dr, cv_Type = ValueTypeFloat64,
                cv_Value = VFloat64 (BigEndian bs)\<rparr>, None))"
proof -
  have not_range: "(case e of NumError ErrRange \<Rightarrow> a | _ \<Rightarrow> b) = b"
    if "e \<noteq> NumError ErrRange" for e :: go_error and a b :: "CommandValue option \<times> go_error option"
    using that by (auto split: go_error.splits)
  show ?thesis
    by (simp add: createCommandValueFromDeviceResource_def clause_Float32_def clause_Float64_def
        leave_clause_def NewCommandValue_def float32FromBytes_def float64FromBytes_def
        ReadFull_def not_range ValueTypeFloat32_def ValueTypeFloat64_def ValueTypeString_def
        ValueTypeBool_def ValueTypeBoolArray_def ValueTypeUint8_def ValueTypeUint8Array_def
        ValueTypeUint16_def ValueTypeUint16Array_def ValueTypeUint32_def
        ValueTypeUint32Array_def ValueTypeUint64_def ValueTypeUint64Array_def ValueTypeInt8_def
        ValueTypeInt8Array_def ValueTypeInt16_def ValueTypeInt16Array_def ValueTypeInt32_def
        ValueTypeInt32Array_def ValueTypeInt64_def ValueTypeInt64Array_def
        ValueTypeFloat32Array_def)
qed

text \<open>
  The base64 texts of the big-endian bytes of 1.5 as a \<^verbatim>\<open>float32\<close> and as a
  \<^verbatim>\<open>float64\<close>.
\<close>

theorem float_binary_fallback_decodes_witness:
  "createCommandValueFromDeviceResource sample res_temp ''P8AAAA=='' =
     (Some \<lparr>cv_DeviceResourceName = ''temp'', cv_Type = ''Float32'',
             cv_Value = VFloat32 0x3FC00000\<rparr>, None) \<and>
   createCommandValueFromDeviceResource sample res_limit ''P/gAAAAAAAA='' =
     (Some \<lparr>cv_DeviceResourceName = ''limit'', cv_Type = ''Float64'',
             cv_Value = VFloat64 0x3FF8000000000000\<rparr>, None)"
  using
    float_binary_fallback_decodes [where dr = res_temp and E = sample and v = "''P8AAAA==''"
      and err = "NumError ErrSyntax" and bs = "[0x3F, 0xC0, 0, 0]"]
    float_binary_fallback_decodes [where dr = res_limit and E = sample
      and v = "''P/gAAAAAAAA=''" and err = "NumError ErrSyntax"
      and bs = "[0x3F, 0xF8, 0, 0, 0, 0, 0, 0]"]
  by (simp add: res_temp_def res_limit_def ValueTypeFloat32_def ValueTypeFloat64_def
      ParseFloat32_def ParseFloat64_def special_examples sample_def sample_atof32_def
      sample_atof64_def DecodeString_examples BigEndian_examples IsNaN_examples)

text \<open>
  C10. For the 32-bit and the 64-bit float kind the texts NaN, Inf and -Inf are accepted
  by the decimal parse itself and give a Command Value holding NaN or that infinity:
  the decimal path has no NaN test, so a NaN can be written through it.
\<close>

theorem special_values_decode_by_decimal_path:
  "(ValueType (Properties dr) = ValueTypeFloat32 \<longrightarrow>
      ParseFloat32 E ''NaN'' = Inr NaN32 \<and> IsNaN32 NaN32 \<and>
      ParseFloat32 E ''Inf'' = Inr (Inf32 False) \<and>
      ParseFloat32 E ''-Inf'' = Inr (Inf32 True) \<and>
      createCommandValueFromDeviceResource E dr ''NaN'' =
        (Some \<lparr>cv_DeviceResourceName = dr_Name dr, cv_Type = ValueTypeFloat32,
                cv_Value = VFloat32 NaN32\<rparr>, None) \<and>
      createCommandValueFromDeviceResource E dr ''Inf'' =
        (Some \<lparr>cv_DeviceResourceName = dr_Name dr, cv_Type = ValueTypeFloat32,
                cv_Value = VFloat32 (Inf32 False)\<rparr>, None) \<and>
      createCommandValueFromDeviceResource E dr ''-Inf'' =
        (Some \<lparr>cv_DeviceResourceName = dr_Name dr, cv_Type = ValueTypeFloat32,
                cv_Value = VFloat32 (Inf32 True)\<rparr>, None)) \<and>
   (ValueType (Properties dr) = ValueTypeFloat64 \<longrightarrow>
      ParseFloat64 E ''NaN'' = Inr NaN64 \<and> IsNaN64 NaN64 \<and>
      ParseFloat64 E ''Inf'' = Inr (Inf64 False) \<and>
      ParseFloat64 E ''-Inf'' = Inr (Inf64 True) \<and>
      createCommandValueFromDeviceResource E dr ''NaN'' =
        (Some \<lparr>cv_DeviceResourceName = dr_Name dr, cv_Type = ValueTypeFloat64,
                cv_Value = VFloat64 NaN64\<rparr>, None) \<and>
      createCommandValueFromDeviceResource E dr ''Inf'' =
        (Some \<lparr>cv_DeviceResourceName = dr_Name dr, cv_Type = ValueTypeFloat64,
                cv_Value = VFloat64 (Inf64 False)\<rparr>, None) \<and>
      createCommandValueFromDeviceResource E dr ''-Inf'' =
        (Some \<lparr>cv_DeviceResourceName = dr_Name dr, cv_Type = ValueTypeFloat64,
                cv_Value = VFloat64 (Inf64 True)\<rparr>, None))"
proof -
  have p32: "ParseFloat32 E ''NaN'' = Inr NaN32" "ParseFloat32 E ''Inf'' = Inr (Inf32 False)"
    "ParseFloat32 E ''-Inf'' = Inr (Inf32 True)"
    by (simp_all add: ParseFloat32_def special_examples)
  have p64: "ParseFloat64 E ''NaN'' = Inr NaN64" "ParseFloat64 E ''Inf'' = Inr (Inf64 False)"
    "ParseFloat64 E ''-Inf'' = Inr (Inf64 True)"
    by (simp_all add: ParseFloat64_def special_examples)
  have nan: "IsNaN32 NaN32" "IsNaN64 NaN64"
    by (simp_all add: IsNaN32_def IsNaN64_def NaN32_def NaN64_def)
  show ?thesis
    by (simp add: createCommandValueFromDeviceResource_def clause_Float32_def clause_Float64_def
        leave_clause_def NewCommandValue_def p32 p64 nan ValueType_defs)
qed

text \<open>
  On the sample profile, and for a whole write of \<open>temp\<close>: the driver receives the NaN.
\<close>

theorem special_values_decode_by_decimal_path_witness:
  "createCommandValueFromDeviceResource sample res_temp ''NaN'' =
     (Some \<lparr>cv_DeviceResourceName = ''temp'', cv_Type = ''Float32'',
             cv_Value = VFloat32 0x7FC00000\<rparr>, None) \<and>
   createCommandValueFromDeviceResource sample res_temp ''-Inf'' =
     (Some \<lparr>cv_DeviceResourceName = ''temp'', cv_Type = ''Float32'',
             cv_Value = VFloat32 0xFF800000\<rparr>, None) \<and>
   createCommandValueFromDeviceResource sample res_limit ''NaN'' =
     (Some \<lparr>cv_DeviceResourceName = ''limit'', cv_Type = ''Float64'',
             cv_Value = VFloat64 0x7FF8000000000001\<rparr>, None) \<and>
   createCommandValueFromDeviceResource sample res_limit ''Inf'' =
     (Some \<lparr>cv_DeviceResourceName = ''limit'', cv_Type = ''Float64'',
             cv_Value = VFloat64 0x7FF0000000000000\<rparr>, None) \<and>
   WriteDeviceResource sample (on_thermostat ''temp'' ''{temp:NaN}'' []) heap0 =
     (Return None,
      heap0\<lparr>driver_calls :=
        [WriteCall ''thermo1''
           [\<lparr>DeviceResourceName = ''temp'', req_Attributes = Some 0, req_Type = ''Float32''\<rparr>]
           [\<lparr>cv_DeviceResourceName = ''temp'', cv_Type = ''Float32'',
             cv_Value = VFloat32 0x7FC00000\<rparr>]]\<rparr>)"
proof -
  have w: "WriteDeviceResource sample (on_thermostat ''temp'' ''{temp:NaN}'' []) heap0 =
     (Return None,
      heap0\<lparr>driver_calls :=
        [WriteCall ''thermo1''
           [\<lparr>DeviceResourceName = ''temp'', req_Attributes = Some 0, req_Type = ''Float32''\<rparr>]
           [\<lparr>cv_DeviceResourceName = ''temp'', cv_Type = ''Float32'',
             cv_Value = VFloat32 NaN32\<rparr>]]\<rparr>)"
    using special_values_decode_by_decimal_path [where dr = res_temp and E = sample]
    by (simp add: WriteDeviceResource_def on_thermostat_simps sample_simps res_simps
        ReadWrite_R_def parseParams_def sample_Unmarshal_def prepare_CommandRequest_def
        request_attributes_def call_HandleWriteCommands_def heap0_simps ValueTypeFloat32_def)
  show ?thesis
    using
      special_values_decode_by_decimal_path [where dr = res_temp and E = sample]
      special_values_decode_by_decimal_path [where dr = res_limit and E = sample] w
    by (simp add: res_temp_def res_limit_def ValueTypeFloat32_def ValueTypeFloat64_def
        NaN32_def NaN64_def Inf32_def Inf64_def)
qed

text \<open>
  C4. The claim: when the decimal parse fails for a reason other than the range and the
  binary fallback fails as well, or the fallback gives NaN, the codec returns an error.
  The code at such inputs: the clause sets its own \<open>err\<close> (line 589, line 596), which
  shadows the variable the function returns, so the codec returns a nil Command Value
  with a nil error, and the write that called it dereferences the nil pointer.
\<close>

theorem float_decode_failure_returns_no_error:
  "clause_Float32 sample res_temp ''abc'' = (None, Some CorruptInputError) \<and>
   createCommandValueFromDeviceResource sample res_temp ''abc'' = (None, None) \<and>
   clause_Float32 sample res_temp ''f8AAAA=='' =
     (None, Some (Errorf ''fail to parse f8AAAA== to float32, unexpected result NaN'')) \<and>
   createCommandValueFromDeviceResource sample res_temp ''f8AAAA=='' = (None, None) \<and>
   clause_Float64 sample res_limit ''abc'' = (None, Some CorruptInputError) \<and>
   createCommandValueFromDeviceResource sample res_limit ''abc'' = (None, None) \<and>
   clause_Float64 sample res_limit ''f/gAAAAAAAE='' =
     (None, Some (Errorf ''fail to parse f/gAAAAAAAE= to float64, unexpected result NaN'')) \<and>
   createCommandValueFromDeviceResource sample res_limit ''f/gAAAAAAAE='' = (None, None) \<and>
   WriteDeviceResource sample (on_thermostat ''temp'' ''{temp:abc}'' []) heap0 = (Panic, heap0)"
proof -
  have c32: "clause_Float32 sample res_temp ''abc'' = (None, Some CorruptInputError)"
    "clause_Float32 sample res_temp ''f8AAAA=='' =
       (None, Some (Errorf ''fail to parse f8AAAA== to float32, unexpected result NaN''))"
    by (simp_all add: clause_Float32_def ParseFloat32_def special_examples sample_def
        sample_atof32_def DecodeString_examples float32FromBytes_def ReadFull_def
        BigEndian_examples IsNaN_examples)
  have c64: "clause_Float64 sample res_limit ''abc'' = (None, Some CorruptInputError)"
    "clause_Float64 sample res_limit ''f/gAAAAAAAE='' =
       (None, Some (Errorf ''fail to parse f/gAAAAAAAE= to float64, unexpected result NaN''))"
    by (simp_all add: clause_Float64_def ParseFloat64_def special_examples sample_def
        sample_atof64_def DecodeString_examples float64FromBytes_def ReadFull_def
        BigEndian_examples IsNaN_examples)
  have d32: "createCommandValueFromDeviceResource sample res_temp v =
      leave_clause (clause_Float32 sample res_temp v)" for v
    by (simp add: createCommandValueFromDeviceResource_def res_temp_def ValueType_defs)
  have d64: "createCommandValueFromDeviceResource sample res_limit v =
      leave_clause (clause_Float64 sample res_limit v)" for v
    by (simp add: createCommandValueFromDeviceResource_def res_limit_def ValueType_defs)
  have w: "WriteDeviceResource sample (on_thermostat ''temp'' ''{temp:abc}'' []) heap0 =
      (Panic, heap0)"
    by (simp add: WriteDeviceResource_def d32 c32 leave_clause_def on_thermostat_simps
        sample_simps res_simps parseParams_def sample_Unmarshal_def ReadWrite_R_def)
  show ?thesis
    by (simp add: c32 c64 d32 d64 leave_clause_def w)
qed

section \<open>The Request Builder and the declared attributes\<close>



lemma raw_query_stored_iff:
  "raw_query_stored q declared st st' \<longleftrightarrow>
     next_map st \<le> next_map st' \<and>
     (\<forall>a < next_map st.
        maps st' a =
          (if q \<noteq> [] \<and> Some a \<in> set declared \<and> maps st a \<noteq> [] then
             AList.update URLRawQuery q (maps st a)
           else maps st a))"
  by (auto simp: raw_query_stored_def list_all_iff)





lemma raw_query_stored_log [simp]:
  "raw_query_stored q declared st (st1\<lparr>driver_calls := calls\<rparr>) =
     raw_query_stored q declared st st1"
  by (simp add: raw_query_stored_iff)






lemma request_refers_log [simp]:
  "request_refers q st (st1\<lparr>driver_calls := calls\<rparr>) = request_refers q st st1"
  by (intro ext) (simp add: request_refers_def split: option.splits)












section \<open>The limit on the operations of a composite command\<close>

text \<open>
  C6, as the claim states it, fails: \<open>restart\<close> of the sample profile has three
  operations where two are allowed, and reading it fails with NotAllowed, not with
  ServerError, because the command is write-only and that check comes first.
\<close>

theorem write_only_command_over_limit:
  "Profiles_DeviceCommand sample ''thermostat'' ''restart'' = Some cmd_restart \<and>
   int (length (ResourceOperations cmd_restart)) > MaxCmdOps (ConfigurationFrom sample) \<and>
   fails_with KindNotAllowed
     (error_of (fst (ReadDeviceCommand sample (on_thermostat ''restart'' [] []) heap0))) \<and>
   \<not> fails_with KindServerError
     (error_of (fst (ReadDeviceCommand sample (on_thermostat ''restart'' [] []) heap0)))"
  by (simp add: ReadDeviceCommand_def on_thermostat_simps sample_simps cmd_restart_def
      ReadWrite_W_def error_of_def NewCommonEdgeX_def)

text \<open>
  C6, amended. For every composite command whose number of Resource Operations exceeds
  MaxCmdOps and that the permission check of the path admits (not write-only for a
  read, not read-only for a write), the operation fails with ServerError and changes
  nothing; the comparison is the same on both paths. On the write path the result is
  reached before the body is parsed and before any value is decoded: it is the same
  for every body and for every environment that has the same commands and the same
  configuration, whatever its parsers, resources and driver are. A command over the
  limit that the permission check of the path rejects (write-only for a read, read-only
  for a write) fails with NotAllowed instead, and changes nothing either.
\<close>

theorem MaxCmdOps_enforced:
  "Profiles_DeviceCommand E (ProfileName (device c)) (sourceName c) = Some dc \<and>
   int (length (ResourceOperations dc)) > MaxCmdOps (ConfigurationFrom E) \<longrightarrow>
     (dc_ReadWrite dc \<noteq> ReadWrite_W \<longrightarrow>
        fails_with KindServerError (error_of (fst (ReadDeviceCommand E c st))) \<and>
        snd (ReadDeviceCommand E c st) = st) \<and>
     (dc_ReadWrite dc \<noteq> ReadWrite_R \<longrightarrow>
        fails_with KindServerError (fst (WriteDeviceCommand E c st)) \<and>
        snd (WriteDeviceCommand E c st) = st \<and>
        (Profiles_DeviceCommand E' = Profiles_DeviceCommand E \<and>
         ConfigurationFrom E' = ConfigurationFrom E \<longrightarrow>
           WriteDeviceCommand E' (c\<lparr>body := b\<rparr>) st = WriteDeviceCommand E c st)) \<and>
     (dc_ReadWrite dc = ReadWrite_W \<longrightarrow>
        fails_with KindNotAllowed (error_of (fst (ReadDeviceCommand E c st))) \<and>
        snd (ReadDeviceCommand E c st) = st) \<and>
     (dc_ReadWrite dc = ReadWrite_R \<longrightarrow>
        fails_with KindNotAllowed (fst (WriteDeviceCommand E c st)) \<and>
        snd (WriteDeviceCommand E c st) = st)"
  by (simp add: ReadDeviceCommand_def WriteDeviceCommand_def error_of_def NewCommonEdgeX_def)

text \<open>
  \<open>setpoint\<close> of the sample profile has three operations where two are allowed; the
  write gives the same result with another body and another JSON parser. The
  write-only \<open>restart\<close> has three operations where two are allowed, and the read-only
  \<open>report\<close> has two where one is allowed: reading the first and writing the second fail
  with NotAllowed.
\<close>

theorem MaxCmdOps_enforced_witness:
  "fails_with KindServerError
     (error_of (fst (ReadDeviceCommand sample (on_thermostat ''setpoint'' [] []) heap0))) \<and>
   snd (ReadDeviceCommand sample (on_thermostat ''setpoint'' [] []) heap0) = heap0 \<and>
   fails_with KindServerError
     (fst (WriteDeviceCommand sample (on_thermostat ''setpoint'' ''{power:ON,temp:1.5}'' [])
        heap0)) \<and>
   snd (WriteDeviceCommand sample (on_thermostat ''setpoint'' ''{power:ON,temp:1.5}'' []) heap0) =
     heap0 \<and>
   WriteDeviceCommand (sample\<lparr>json_Unmarshal_map := (\<lambda>s. Inr [])\<rparr>)
     ((on_thermostat ''setpoint'' ''{power:ON,temp:1.5}'' [])\<lparr>body := ''not json''\<rparr>) heap0 =
     WriteDeviceCommand sample (on_thermostat ''setpoint'' ''{power:ON,temp:1.5}'' []) heap0 \<and>
   fails_with KindNotAllowed
     (error_of (fst (ReadDeviceCommand sample (on_thermostat ''restart'' [] []) heap0))) \<and>
   snd (ReadDeviceCommand sample (on_thermostat ''restart'' [] []) heap0) = heap0 \<and>
   fails_with KindNotAllowed
     (fst (WriteDeviceCommand sample1 (on_thermostat ''report'' ''{mode:eco}'' []) heap0)) \<and>
   snd (WriteDeviceCommand sample1 (on_thermostat ''report'' ''{mode:eco}'' []) heap0) = heap0"
  using
    MaxCmdOps_enforced [where E = sample and c = "on_thermostat ''setpoint'' [] []"
      and dc = cmd_setpoint and st = heap0 and E' = sample and b = "[]"]
    MaxCmdOps_enforced [where E = sample
      and c = "on_thermostat ''setpoint'' ''{power:ON,temp:1.5}'' []"
      and dc = cmd_setpoint and st = heap0
      and E' = "sample\<lparr>json_Unmarshal_map := (\<lambda>s. Inr [])\<rparr>" and b = "''not json''"]
    MaxCmdOps_enforced [where E = sample and c = "on_thermostat ''restart'' [] []"
      and dc = cmd_restart and st = heap0 and E' = sample and b = "[]"]
    MaxCmdOps_enforced [where E = sample1 and c = "on_thermostat ''report'' ''{mode:eco}'' []"
      and dc = cmd_report and st = heap0 and E' = sample1 and b = "[]"]
  by (simp add: on_thermostat_simps sample_simps sample1_simps cmd_setpoint_def cmd_restart_def
      cmd_report_def ReadWrite_W_def ReadWrite_R_def)

section \<open>Permissions\<close>

lemma create_CommandValues_read_only:
  "ro \<in> set ros \<Longrightarrow>
   Profiles_DeviceResource E (ProfileName (device c)) (ro_DeviceResource ro) = Some dr \<Longrightarrow>
   ReadWrite (Properties dr) = ReadWrite_R \<Longrightarrow>
   \<exists>e. create_CommandValues E c dc pm ros cvs = Inl e"
proof (induction ros arbitrary: cvs)
  case Nil
  then show ?case by simp
next
  case (Cons r ros)
  show ?case
  proof (cases "r = ro")
    case True
    with Cons.prems show ?thesis by simp
  next
    case False
    with Cons.prems have "ro \<in> set ros" by simp
    then have "\<exists>e. create_CommandValues E c dc pm ros cvs1 = Inl e" for cvs1
      using Cons.IH Cons.prems(2,3) by blast
    then show ?thesis
      by (auto simp: Let_def split: option.splits sum.splits prod.splits)
  qed
qed

lemma create_CommandValues_error_kind:
  "create_CommandValues E c dc pm ros cvs = Inl e \<Longrightarrow>
   errKind (Some e) = Some KindNotAllowed \<or> errKind (Some e) = Some KindServerError"
proof (induction ros arbitrary: cvs)
  case Nil
  then show ?case by simp
next
  case (Cons ro ros)
  show ?case
  proof (cases "Profiles_DeviceResource E (ProfileName (device c)) (ro_DeviceResource ro)")
    case None
    with Cons.prems show ?thesis
      by (auto simp: NewCommonEdgeX_def)
  next
    case (Some dr)
    show ?thesis
    proof (cases "ReadWrite (Properties dr) = ReadWrite_R")
      case True
      with Some Cons.prems show ?thesis
        by (auto simp: NewCommonEdgeX_def)
    next
      case writable: False
      show ?thesis
      proof (cases "request_value pm ro dr")
        case (Inl e1)
        with Some writable Cons.prems have "e = e1"
          by simp
        with Inl show ?thesis
          by (auto simp: request_value_def NewCommonEdgeX_def split: option.splits if_splits)
      next
        case (Inr v)
        obtain cv err where made:
          "createCommandValueFromDeviceResource E dr (write_value_mapping ro v) = (cv, err)"
          by (cases "createCommandValueFromDeviceResource E dr (write_value_mapping ro v)")
        show ?thesis
        proof (cases err)
          case None
          with Some writable Inr made Cons.prems
          have "create_CommandValues E c dc pm ros (cvs @ [cv]) = Inl e"
            by simp
          then show ?thesis
            by (rule Cons.IH)
        next
          case (Some err1)
          with \<open>Profiles_DeviceResource E (ProfileName (device c)) (ro_DeviceResource ro) =
              Some dr\<close> writable Inr made Cons.prems
          show ?thesis
            by (auto simp: NewCommonEdgeX_def)
        qed
      qed
    qed
  qed
qed

text \<open>
  C8, as the claim states it, fails: \<open>identify\<close> of the sample profile has the
  read-only \<open>serial\<close> as its second operation, and a write whose body has no value for
  the first operation, \<open>power\<close>, fails at \<open>power\<close> with ServerError, not with NotAllowed.
\<close>

theorem read_only_constituent_other_error:
  "Profiles_DeviceCommand sample ''thermostat'' ''identify'' = Some cmd_identify \<and>
   ResourceOperations cmd_identify = [op_for ''power'', op_for ''serial''] \<and>
   Profiles_DeviceResource sample ''thermostat'' (ro_DeviceResource (op_for ''serial'')) =
     Some res_serial \<and>
   ReadWrite (Properties res_serial) = ReadWrite_R \<and>
   fails_with KindServerError
     (fst (WriteDeviceCommand sample (on_thermostat ''identify'' ''{mode:eco}'' []) heap0)) \<and>
   \<not> fails_with KindNotAllowed
     (fst (WriteDeviceCommand sample (on_thermostat ''identify'' ''{mode:eco}'' []) heap0))"
  by (simp add: WriteDeviceCommand_def on_thermostat_simps sample_simps cmd_identify_def
      op_for_def res_simps ReadWrite_R_def parseParams_def sample_Unmarshal_def
      request_value_def NewCommonEdgeX_def)

text \<open>
  C8, amended. A read of a write-only resource or composite command fails with
  NotAllowed, and so does a write of a read-only resource or composite command; the
  state is untouched, so the driver is not called. A composite write one of whose
  operations has a declared read-only resource never reaches the driver: it fails with
  NotAllowed or with ServerError, the state untouched, and the error is that of the
  first check that fails:

  \<^item> NotAllowed when the command is read-only itself;

  \<^item> otherwise ServerError when the number of operations exceeds MaxCmdOps, or when
    the body does not parse;

  \<^item> otherwise the error of the first operation, in declared order, that fails (the
    operations before it being resolved and decoded without an error): NotAllowed when
    the resource of that operation is read-only, and ServerError when its resource is
    not declared, when it has no value, or when the codec returns an error for its
    value.
\<close>

theorem permissions_enforced_before_driver:
  "(Profiles_DeviceResource E (ProfileName (device c)) (sourceName c) = Some dr \<and>
    ReadWrite (Properties dr) = ReadWrite_W \<longrightarrow>
      fails_with KindNotAllowed (error_of (fst (ReadDeviceResource E c st))) \<and>
      snd (ReadDeviceResource E c st) = st) \<and>
   (Profiles_DeviceCommand E (ProfileName (device c)) (sourceName c) = Some dc \<and>
    dc_ReadWrite dc = ReadWrite_W \<longrightarrow>
      fails_with KindNotAllowed (error_of (fst (ReadDeviceCommand E c st))) \<and>
      snd (ReadDeviceCommand E c st) = st) \<and>
   (Profiles_DeviceResource E (ProfileName (device c)) (sourceName c) = Some dr \<and>
    ReadWrite (Properties dr) = ReadWrite_R \<longrightarrow>
      fails_with KindNotAllowed (fst (WriteDeviceResource E c st)) \<and>
      snd (WriteDeviceResource E c st) = st) \<and>
   (Profiles_DeviceCommand E (ProfileName (device c)) (sourceName c) = Some dc \<and>
    dc_ReadWrite dc = ReadWrite_R \<longrightarrow>
      fails_with KindNotAllowed (fst (WriteDeviceCommand E c st)) \<and>
      snd (WriteDeviceCommand E c st) = st) \<and>
   (Profiles_DeviceCommand E (ProfileName (device c)) (sourceName c) = Some dc \<and>
    ro \<in> set (ResourceOperations dc) \<and>
    Profiles_DeviceResource E (ProfileName (device c)) (ro_DeviceResource ro) = Some rd \<and>
    ReadWrite (Properties rd) = ReadWrite_R \<longrightarrow>
      (fails_with KindNotAllowed (fst (WriteDeviceCommand E c st)) \<or>
       fails_with KindServerError (fst (WriteDeviceCommand E c st))) \<and>
      snd (WriteDeviceCommand E c st) = st) \<and>
   (Profiles_DeviceCommand E (ProfileName (device c)) (sourceName c) = Some dc \<and>
    dc_ReadWrite dc \<noteq> ReadWrite_R \<and>
    int (length (ResourceOperations dc)) > MaxCmdOps (ConfigurationFrom E) \<longrightarrow>
      fails_with KindServerError (fst (WriteDeviceCommand E c st)) \<and>
      snd (WriteDeviceCommand E c st) = st) \<and>
   (Profiles_DeviceCommand E (ProfileName (device c)) (sourceName c) = Some dc \<and>
    dc_ReadWrite dc \<noteq> ReadWrite_R \<and>
    int (length (ResourceOperations dc)) \<le> MaxCmdOps (ConfigurationFrom E) \<and>
    parseParams E (body c) = Inl err \<longrightarrow>
      fails_with KindServerError (fst (WriteDeviceCommand E c st)) \<and>
      snd (WriteDeviceCommand E c st) = st) \<and>
   (Profiles_DeviceCommand E (ProfileName (device c)) (sourceName c) = Some dc \<and>
    dc_ReadWrite dc \<noteq> ReadWrite_R \<and>
    int (length (ResourceOperations dc)) \<le> MaxCmdOps (ConfigurationFrom E) \<and>
    parseParams E (body c) = Inr paramMap \<and>
    ResourceOperations dc = before @ ro # rest \<and>
    create_CommandValues E c dc paramMap before [] = Inr cvs \<longrightarrow>
      (Profiles_DeviceResource E (ProfileName (device c)) (ro_DeviceResource ro) = Some rd \<and>
       ReadWrite (Properties rd) = ReadWrite_R \<longrightarrow>
         fails_with KindNotAllowed (fst (WriteDeviceCommand E c st)) \<and>
         snd (WriteDeviceCommand E c st) = st) \<and>
      (Profiles_DeviceResource E (ProfileName (device c)) (ro_DeviceResource ro) = None \<or>
       Profiles_DeviceResource E (ProfileName (device c)) (ro_DeviceResource ro) = Some rd \<and>
       ReadWrite (Properties rd) \<noteq> ReadWrite_R \<and>
       (request_value paramMap ro rd = Inl e \<or>
        request_value paramMap ro rd = Inr v \<and>
        createCommandValueFromDeviceResource E rd (write_value_mapping ro v) =
          (cv, Some err)) \<longrightarrow>
         fails_with KindServerError (fst (WriteDeviceCommand E c st)) \<and>
         snd (WriteDeviceCommand E c st) = st))"
proof -
  have any_error:
    "(fails_with KindNotAllowed (fst (WriteDeviceCommand E c st)) \<or>
      fails_with KindServerError (fst (WriteDeviceCommand E c st))) \<and>
     snd (WriteDeviceCommand E c st) = st"
    if dc: "Profiles_DeviceCommand E (ProfileName (device c)) (sourceName c) = Some dc"
      and ro: "ro \<in> set (ResourceOperations dc)"
      and rd: "Profiles_DeviceResource E (ProfileName (device c)) (ro_DeviceResource ro) =
        Some rd"
      and ronly: "ReadWrite (Properties rd) = ReadWrite_R"
  proof (cases "dc_ReadWrite dc = ReadWrite_R \<or>
      int (length (ResourceOperations dc)) > MaxCmdOps (ConfigurationFrom E)")
    case True
    with dc show ?thesis
      by (auto simp: WriteDeviceCommand_def NewCommonEdgeX_def)
  next
    case admitted: False
    show ?thesis
    proof (cases "parseParams E (body c)")
      case (Inl err)
      with dc admitted show ?thesis
        by (simp add: WriteDeviceCommand_def NewCommonEdgeX_def)
    next
      case (Inr pm)
      from create_CommandValues_read_only [OF ro rd ronly] obtain e where
        stops: "create_CommandValues E c dc pm (ResourceOperations dc) [] = Inl e"
        by blast
      from create_CommandValues_error_kind [OF stops]
      have "errKind (Some e) = Some KindNotAllowed \<or> errKind (Some e) = Some KindServerError" .
      moreover have "WriteDeviceCommand E c st = (Return (Some e), st)"
        using dc admitted Inr stops by (simp add: WriteDeviceCommand_def)
      ultimately show ?thesis
        by auto
    qed
  qed
  have early:
    "fails_with KindServerError (fst (WriteDeviceCommand E c st)) \<and>
     snd (WriteDeviceCommand E c st) = st"
    if "Profiles_DeviceCommand E (ProfileName (device c)) (sourceName c) = Some dc"
      and "dc_ReadWrite dc \<noteq> ReadWrite_R"
      and "int (length (ResourceOperations dc)) > MaxCmdOps (ConfigurationFrom E) \<or>
           parseParams E (body c) = Inl err"
    using that by (auto simp: WriteDeviceCommand_def NewCommonEdgeX_def)
  have loop: "WriteDeviceCommand E c st =
      (case create_CommandValues E c dc paramMap (ro # rest) cvs of
         Inl e \<Rightarrow> (Return (Some e), st)
       | Inr cvs1 \<Rightarrow> WriteDeviceCommand E c st)"
    if "Profiles_DeviceCommand E (ProfileName (device c)) (sourceName c) = Some dc"
      and "dc_ReadWrite dc \<noteq> ReadWrite_R"
      and "int (length (ResourceOperations dc)) \<le> MaxCmdOps (ConfigurationFrom E)"
      and "parseParams E (body c) = Inr paramMap"
      and "ResourceOperations dc = before @ ro # rest"
      and "create_CommandValues E c dc paramMap before [] = Inr cvs"
  proof (cases "create_CommandValues E c dc paramMap (ro # rest) cvs")
    case (Inl e)
    then have "create_CommandValues E c dc paramMap (ResourceOperations dc) [] = Inl e"
      using that(5,6) by (simp add: create_CommandValues_append)
    with that(1-4) Inl show ?thesis
      by (simp add: WriteDeviceCommand_def)
  next
    case (Inr cvs1)
    then show ?thesis by simp
  qed
  have reached:
    "fails_with KindNotAllowed (fst (WriteDeviceCommand E c st)) \<and>
     snd (WriteDeviceCommand E c st) = st"
    if "Profiles_DeviceCommand E (ProfileName (device c)) (sourceName c) = Some dc"
      and "dc_ReadWrite dc \<noteq> ReadWrite_R"
      and "int (length (ResourceOperations dc)) \<le> MaxCmdOps (ConfigurationFrom E)"
      and "parseParams E (body c) = Inr paramMap"
      and "ResourceOperations dc = before @ ro # rest"
      and "create_CommandValues E c dc paramMap before [] = Inr cvs"
      and "Profiles_DeviceResource E (ProfileName (device c)) (ro_DeviceResource ro) = Some rd"
      and "ReadWrite (Properties rd) = ReadWrite_R"
  proof -
    have "WriteDeviceCommand E c st =
        (Return (Some (NewCommonEdgeX KindNotAllowed
           (''deviceResource '' @ ro_DeviceResource ro @ '' in SET command '' @ dc_Name dc @
            '' is marked as read-only'') None)), st)"
      using loop [OF that(1-6)] that(7,8) by simp
    then show ?thesis
      by (simp add: NewCommonEdgeX_def)
  qed
  have other:
    "fails_with KindServerError (fst (WriteDeviceCommand E c st)) \<and>
     snd (WriteDeviceCommand E c st) = st"
    if "Profiles_DeviceCommand E (ProfileName (device c)) (sourceName c) = Some dc"
      and "dc_ReadWrite dc \<noteq> ReadWrite_R"
      and "int (length (ResourceOperations dc)) \<le> MaxCmdOps (ConfigurationFrom E)"
      and "parseParams E (body c) = Inr paramMap"
      and "ResourceOperations dc = before @ ro # rest"
      and "create_CommandValues E c dc paramMap before [] = Inr cvs"
      and "Profiles_DeviceResource E (ProfileName (device c)) (ro_DeviceResource ro) = None \<or>
           Profiles_DeviceResource E (ProfileName (device c)) (ro_DeviceResource ro) = Some rd \<and>
           ReadWrite (Properties rd) \<noteq> ReadWrite_R \<and>
           (request_value paramMap ro rd = Inl e \<or>
            request_value paramMap ro rd = Inr v \<and>
            createCommandValueFromDeviceResource E rd (write_value_mapping ro v) =
              (cv, Some err))"
  proof -
    have "\<exists>msg w. create_CommandValues E c dc paramMap (ro # rest) cvs =
        Inl (CommonEdgeX KindServerError msg w)"
      using that(7)
      by (auto simp: NewCommonEdgeX_def request_value_def split: option.splits if_splits)
    then obtain msg w where "create_CommandValues E c dc paramMap (ro # rest) cvs =
        Inl (CommonEdgeX KindServerError msg w)"
      by blast
    with loop [OF that(1-6)]
    have "WriteDeviceCommand E c st = (Return (Some (CommonEdgeX KindServerError msg w)), st)"
      by simp
    then show ?thesis
      by simp
  qed
  have single:
    "(Profiles_DeviceResource E (ProfileName (device c)) (sourceName c) = Some dr \<and>
      ReadWrite (Properties dr) = ReadWrite_W \<longrightarrow>
        fails_with KindNotAllowed (error_of (fst (ReadDeviceResource E c st))) \<and>
        snd (ReadDeviceResource E c st) = st) \<and>
     (Profiles_DeviceCommand E (ProfileName (device c)) (sourceName c) = Some dc \<and>
      dc_ReadWrite dc = ReadWrite_W \<longrightarrow>
        fails_with KindNotAllowed (error_of (fst (ReadDeviceCommand E c st))) \<and>
        snd (ReadDeviceCommand E c st) = st) \<and>
     (Profiles_DeviceResource E (ProfileName (device c)) (sourceName c) = Some dr \<and>
      ReadWrite (Properties dr) = ReadWrite_R \<longrightarrow>
        fails_with KindNotAllowed (fst (WriteDeviceResource E c st)) \<and>
        snd (WriteDeviceResource E c st) = st) \<and>
     (Profiles_DeviceCommand E (ProfileName (device c)) (sourceName c) = Some dc \<and>
      dc_ReadWrite dc = ReadWrite_R \<longrightarrow>
        fails_with KindNotAllowed (fst (WriteDeviceCommand E c st)) \<and>
        snd (WriteDeviceCommand E c st) = st)"
    by (simp add: ReadDeviceResource_def ReadDeviceCommand_def WriteDeviceResource_def
        WriteDeviceCommand_def error_of_def NewCommonEdgeX_def)
  show ?thesis
    using single any_error early reached other by blast
qed

text \<open>
  On the sample profile: the write-only \<open>reset\<close> and \<open>restart\<close>; the read-only \<open>serial\<close>
  and \<open>report\<close>, the latter also where it is over the limit; \<open>identify\<close>, whose second
  operation is the read-only \<open>serial\<close>, with a body that has a value for \<open>power\<close>
  (NotAllowed at \<open>serial\<close>), with a body that has none (ServerError at \<open>power\<close>), with a
  body that does not parse (ServerError), and where one operation only is allowed
  (ServerError).
\<close>

theorem permissions_enforced_before_driver_witness:
  "fails_with KindNotAllowed
     (error_of (fst (ReadDeviceResource sample (on_thermostat ''reset'' [] []) heap0))) \<and>
   snd (ReadDeviceResource sample (on_thermostat ''reset'' [] []) heap0) = heap0 \<and>
   fails_with KindNotAllowed
     (error_of (fst (ReadDeviceCommand sample (on_thermostat ''restart'' [] []) heap0))) \<and>
   fails_with KindNotAllowed
     (fst (WriteDeviceResource sample (on_thermostat ''serial'' ''{mode:eco}'' []) heap0)) \<and>
   fails_with KindNotAllowed
     (fst (WriteDeviceCommand sample (on_thermostat ''report'' ''{mode:eco}'' []) heap0)) \<and>
   fails_with KindNotAllowed
     (fst (WriteDeviceCommand sample1 (on_thermostat ''report'' ''{mode:eco}'' []) heap0)) \<and>
   fails_with KindNotAllowed
     (fst (WriteDeviceCommand sample (on_thermostat ''identify'' ''{power:true}'' []) heap0)) \<and>
   snd (WriteDeviceCommand sample (on_thermostat ''identify'' ''{power:true}'' []) heap0) = heap0 \<and>
   fails_with KindServerError
     (fst (WriteDeviceCommand sample (on_thermostat ''identify'' ''{mode:eco}'' []) heap0)) \<and>
   snd (WriteDeviceCommand sample (on_thermostat ''identify'' ''{mode:eco}'' []) heap0) = heap0 \<and>
   fails_with KindServerError
     (fst (WriteDeviceCommand sample (on_thermostat ''identify'' ''oops'' []) heap0)) \<and>
   fails_with KindServerError
     (fst (WriteDeviceCommand sample1 (on_thermostat ''identify'' ''{power:true}'' []) heap0)) \<and>
   snd (WriteDeviceCommand sample1 (on_thermostat ''identify'' ''{power:true}'' []) heap0) = heap0"
proof -
  let ?power = "\<lparr>cv_DeviceResourceName = ''power'', cv_Type = ''Bool'', cv_Value = VBool True\<rparr>"
  let ?none = "CommonEdgeX KindServerError
      ''deviceResource power not found in request body and no default value defined'' None"
  note sample_facts = on_thermostat_simps sample_simps sample1_simps res_simps op_simps
    cmd_restart_def cmd_report_def cmd_identify_def ReadWrite_R_def ReadWrite_W_def
    parseParams_def sample_Unmarshal_def
  have power: "create_CommandValues sample (on_thermostat ''identify'' ''{power:true}'' [])
      cmd_identify [(''power'', ''true'')] [op_for ''power''] [] = Inr [Some ?power]"
    by (simp add: on_thermostat_simps sample_simps res_simps op_simps ReadWrite_R_def
        request_value_def write_value_mapping_def createCommandValueFromDeviceResource_def
        ValueTypeBool_def ValueTypeString_def ParseBool_def leave_clause_def
        NewCommandValue_def)
  have single:
    "fails_with KindNotAllowed
       (error_of (fst (ReadDeviceResource sample (on_thermostat ''reset'' [] []) heap0))) \<and>
     snd (ReadDeviceResource sample (on_thermostat ''reset'' [] []) heap0) = heap0 \<and>
     fails_with KindNotAllowed
       (error_of (fst (ReadDeviceCommand sample (on_thermostat ''restart'' [] []) heap0))) \<and>
     fails_with KindNotAllowed
       (fst (WriteDeviceResource sample (on_thermostat ''serial'' ''{mode:eco}'' []) heap0)) \<and>
     fails_with KindNotAllowed
       (fst (WriteDeviceCommand sample (on_thermostat ''report'' ''{mode:eco}'' []) heap0)) \<and>
     fails_with KindNotAllowed
       (fst (WriteDeviceCommand sample1 (on_thermostat ''report'' ''{mode:eco}'' []) heap0))"
    using
      permissions_enforced_before_driver [where E = sample
        and c = "on_thermostat ''reset'' [] []" and dr = res_reset and dc = cmd_restart
        and st = heap0 and ro = "op_for ''serial''" and rd = res_serial and paramMap = "[]"
        and before = "[]" and rest = "[]" and cvs = "[]" and err = EOF and e = EOF
        and v = "[]" and cv = None]
      permissions_enforced_before_driver [where E = sample
        and c = "on_thermostat ''restart'' [] []" and dr = res_reset and dc = cmd_restart
        and st = heap0 and ro = "op_for ''serial''" and rd = res_serial and paramMap = "[]"
        and before = "[]" and rest = "[]" and cvs = "[]" and err = EOF and e = EOF
        and v = "[]" and cv = None]
      permissions_enforced_before_driver [where E = sample
        and c = "on_thermostat ''serial'' ''{mode:eco}'' []" and dr = res_serial
        and dc = cmd_report and st = heap0 and ro = "op_for ''serial''" and rd = res_serial
        and paramMap = "[]" and before = "[]" and rest = "[]" and cvs = "[]" and err = EOF
        and e = EOF and v = "[]" and cv = None]
      permissions_enforced_before_driver [where E = sample
        and c = "on_thermostat ''report'' ''{mode:eco}'' []" and dr = res_serial
        and dc = cmd_report and st = heap0 and ro = "op_for ''serial''" and rd = res_serial
        and paramMap = "[]" and before = "[]" and rest = "[]" and cvs = "[]" and err = EOF
        and e = EOF and v = "[]" and cv = None]
      permissions_enforced_before_driver [where E = sample1
        and c = "on_thermostat ''report'' ''{mode:eco}'' []" and dr = res_serial
        and dc = cmd_report and st = heap0 and ro = "op_for ''serial''" and rd = res_serial
        and paramMap = "[]" and before = "[]" and rest = "[]" and cvs = "[]" and err = EOF
        and e = EOF and v = "[]" and cv = None]
    by (simp add: sample_facts)
  have reached:
    "fails_with KindNotAllowed
       (fst (WriteDeviceCommand sample (on_thermostat ''identify'' ''{power:true}'' []) heap0)) \<and>
     snd (WriteDeviceCommand sample (on_thermostat ''identify'' ''{power:true}'' []) heap0) =
       heap0"
    using
      permissions_enforced_before_driver [where E = sample
        and c = "on_thermostat ''identify'' ''{power:true}'' []" and dr = res_serial
        and dc = cmd_identify and st = heap0 and ro = "op_for ''serial''" and rd = res_serial
        and paramMap = "[(''power'', ''true'')]" and before = "[op_for ''power'']"
        and rest = "[]" and cvs = "[Some ?power]" and err = EOF and e = EOF and v = "[]"
        and cv = None]
      power
    by (simp add: sample_facts)
  have earlier_operation:
    "fails_with KindServerError
       (fst (WriteDeviceCommand sample (on_thermostat ''identify'' ''{mode:eco}'' []) heap0)) \<and>
     snd (WriteDeviceCommand sample (on_thermostat ''identify'' ''{mode:eco}'' []) heap0) =
       heap0"
    using
      permissions_enforced_before_driver [where E = sample
        and c = "on_thermostat ''identify'' ''{mode:eco}'' []" and dr = res_serial
        and dc = cmd_identify and st = heap0 and ro = "op_for ''power''" and rd = res_power
        and paramMap = "[(''mode'', ''eco'')]" and before = "[]"
        and rest = "[op_for ''serial'']" and cvs = "[]" and err = EOF and e = ?none
        and v = "[]" and cv = None]
    by (simp add: sample_facts request_value_def NewCommonEdgeX_def)
  have body_and_count:
    "fails_with KindServerError
       (fst (WriteDeviceCommand sample (on_thermostat ''identify'' ''oops'' []) heap0)) \<and>
     fails_with KindServerError
       (fst (WriteDeviceCommand sample1 (on_thermostat ''identify'' ''{power:true}'' [])
          heap0)) \<and>
     snd (WriteDeviceCommand sample1 (on_thermostat ''identify'' ''{power:true}'' []) heap0) =
       heap0"
    using
      permissions_enforced_before_driver [where E = sample
        and c = "on_thermostat ''identify'' ''oops'' []" and dr = res_serial
        and dc = cmd_identify and st = heap0 and ro = "op_for ''serial''" and rd = res_serial
        and paramMap = "[]" and before = "[]" and rest = "[]" and cvs = "[]"
        and err = "ExternalError ''invalid character''" and e = EOF and v = "[]"
        and cv = None]
      permissions_enforced_before_driver [where E = sample1
        and c = "on_thermostat ''identify'' ''{power:true}'' []" and dr = res_serial
        and dc = cmd_identify and st = heap0 and ro = "op_for ''serial''" and rd = res_serial
        and paramMap = "[]" and before = "[]" and rest = "[]" and cvs = "[]"
        and err = EOF and e = EOF and v = "[]" and cv = None]
    by (simp add: sample_facts)
  from single reached earlier_operation body_and_count show ?thesis
    by simp
qed

section \<open>A composite write with a value that does not decode\<close>

text \<open>
  Where a composite write does return its error: when the loop of lines 317-367 ends
  with an error the write returns it with the state untouched, and when the loop of
  lines 371-391 ends with the transformer's error the write returns it before the
  driver is called.
\<close>

lemma WriteDeviceCommand_returned_failures:
  assumes "Profiles_DeviceCommand E (ProfileName (device c)) (sourceName c) = Some dc"
    and "dc_ReadWrite dc \<noteq> ReadWrite_R"
    and "int (length (ResourceOperations dc)) \<le> MaxCmdOps (ConfigurationFrom E)"
    and "parseParams E (body c) = Inr paramMap"
  shows "create_CommandValues E c dc paramMap (ResourceOperations dc) [] = Inl e \<Longrightarrow>
           WriteDeviceCommand E c st = (Return (Some e), st)"
    and "create_CommandValues E c dc paramMap (ResourceOperations dc) [] = Inr cvs \<Longrightarrow>
         prepare_CommandRequests E c cvs [] [] st = (Return (Inl e), st1) \<Longrightarrow>
           WriteDeviceCommand E c st = (Return (Some e), st1) \<and>
           driver_calls st1 = driver_calls st"
  using assms prepare_CommandRequests_driver_calls [of E c cvs "[]" "[]" st]
  by (simp_all add: WriteDeviceCommand_def)

text \<open>
  C1. The claim: when resolving any operation of a composite write fails (undeclared or
  read-only resource, no value, decode failure, transform failure), the write returns
  an error and the driver is not called. The code at a float value that does not
  decode: \<open>setpoint\<close> with the body \<^verbatim>\<open>{"power":"ON","temp":"abc","mode":"eco"}\<close>, the
  second of three values. The codec returns a nil Command Value with a nil error for
  \<open>temp\<close>, line 363 appends the nil pointer, and line 372 dereferences it: the write
  panics. No error is returned; the driver is not called.
\<close>

theorem composite_write_float_failure_panics:
  "Profiles_DeviceCommand sample3 ''thermostat'' ''setpoint'' = Some cmd_setpoint \<and>
   ResourceOperations cmd_setpoint = [op_power, op_for ''temp'', op_for ''mode''] \<and>
   createCommandValueFromDeviceResource sample3 res_temp ''abc'' = (None, None) \<and>
   create_CommandValues sample3 (on_thermostat ''setpoint'' ''{power:ON,temp:abc,mode:eco}'' [])
     cmd_setpoint [(''power'', ''ON''), (''temp'', ''abc''), (''mode'', ''eco'')]
     (ResourceOperations cmd_setpoint) [] =
     Inr [Some \<lparr>cv_DeviceResourceName = ''power'', cv_Type = ''Bool'', cv_Value = VBool True\<rparr>,
          None,
          Some \<lparr>cv_DeviceResourceName = ''mode'', cv_Type = ''String'',
                 cv_Value = VString ''eco''\<rparr>] \<and>
   WriteDeviceCommand sample3 (on_thermostat ''setpoint'' ''{power:ON,temp:abc,mode:eco}'' [])
     heap0 = (Panic, heap0)"
proof -
  let ?c = "on_thermostat ''setpoint'' ''{power:ON,temp:abc,mode:eco}'' []"
  let ?pm = "[(''power'', ''ON''), (''temp'', ''abc''), (''mode'', ''eco'')]"
  have abc: "createCommandValueFromDeviceResource sample3 res_temp ''abc'' = (None, None)"
    by (simp add: createCommandValueFromDeviceResource_def res_simps ValueType_defs
        leave_clause_def clause_Float32_def ParseFloat32_def special_examples sample3_simps
        sample_atof32_def DecodeString_examples)
  have power: "createCommandValueFromDeviceResource sample3 res_power ''true'' =
      (Some \<lparr>cv_DeviceResourceName = ''power'', cv_Type = ''Bool'', cv_Value = VBool True\<rparr>,
       None)"
    by (simp add: createCommandValueFromDeviceResource_def res_simps ValueType_defs
        leave_clause_def ParseBool_def NewCommandValue_def)
  have mode: "createCommandValueFromDeviceResource sample3 res_mode ''eco'' =
      (Some \<lparr>cv_DeviceResourceName = ''mode'', cv_Type = ''String'',
              cv_Value = VString ''eco''\<rparr>, None)"
    by (simp add: createCommandValueFromDeviceResource_def res_simps ValueType_defs
        NewCommandValue_def)
  have made: "create_CommandValues sample3 ?c cmd_setpoint ?pm
      [op_power, op_for ''temp'', op_for ''mode''] [] =
      Inr [Some \<lparr>cv_DeviceResourceName = ''power'', cv_Type = ''Bool'', cv_Value = VBool True\<rparr>,
           None,
           Some \<lparr>cv_DeviceResourceName = ''mode'', cv_Type = ''String'',
                  cv_Value = VString ''eco''\<rparr>]"
    by (simp add: on_thermostat_simps sample3_simps sample_simps res_simps op_power_def
        op_for_def ReadWrite_R_def request_value_def write_value_mapping_def abc power mode)
  have ops: "ResourceOperations cmd_setpoint = [op_power, op_for ''temp'', op_for ''mode'']"
    by (simp add: cmd_setpoint_def)
  have made_all: "create_CommandValues sample3 ?c cmd_setpoint ?pm
      (ResourceOperations cmd_setpoint) [] =
      Inr [Some \<lparr>cv_DeviceResourceName = ''power'', cv_Type = ''Bool'', cv_Value = VBool True\<rparr>,
           None,
           Some \<lparr>cv_DeviceResourceName = ''mode'', cv_Type = ''String'',
                  cv_Value = VString ''eco''\<rparr>]"
    using made by (simp only: ops)
  have admitted: "dc_ReadWrite cmd_setpoint = ''RW''"
    "int (length (ResourceOperations cmd_setpoint)) = 3"
    by (simp_all add: cmd_setpoint_def)
  have "WriteDeviceCommand sample3 ?c heap0 = (Panic, heap0)"
    by (simp add: WriteDeviceCommand_def on_thermostat_simps sample3_simps sample_simps
        parseParams_def sample_Unmarshal_def admitted made_all ReadWrite_R_def res_simps
        prepare_CommandRequest_def request_attributes_def)
  with abc made_all ops show ?thesis
    by (simp add: sample3_simps sample_simps)
qed

end
